theory Spec2Isabelle
  imports Main
begin

unbundle bit_operations_syntax

section \<open>Python 2 values shared by all of \<^verbatim>\<open>salt/crypt.py\<close>\<close>

text \<open>
  A Python 2 \<^verbatim>\<open>str\<close> is a sequence of bytes, which is what \<^typ>\<open>string\<close> is:
  \<^verbatim>\<open>ord\<close> is \<^term>\<open>of_char :: char \<Rightarrow> nat\<close> and \<^verbatim>\<open>chr\<close> is
  \<^term>\<open>char_of :: nat \<Rightarrow> char\<close>. Every exception the module can raise is a
  constructor of \<open>error\<close>; a function that may raise returns \<open>error + 'a\<close>.
\<close>

datatype error =
    AuthenticationError
  | AssertionError
  | IndexError
  | KeyError
  | ValueError
  | TypeError
  | RSAError
  | Base64Error
  | IOError
  | SaltClientError
  | SystemExit int

definition LF :: char where
  "LF = CHR 0x0A"

definition CR :: char where
  "CR = CHR 0x0D"

definition PAD_CHR :: char where
  "PAD_CHR = CHR ''=''"

section \<open>The base64 codec of the Python 2 standard library\<close>

text \<open>
  \<^verbatim>\<open>key.encode('base64')\<close> is \<^verbatim>\<open>base64.encodestring\<close>: the input is cut into
  pieces of 57 bytes, each piece is encoded by \<^verbatim>\<open>binascii.b2a_base64\<close> (three bytes
  to four characters, \<^verbatim>\<open>=\<close> padding, one newline at the end of the piece).
  \<^verbatim>\<open>key_string.decode('base64')\<close> is \<^verbatim>\<open>binascii.a2b_base64\<close>, the lenient
  decoder of CPython 2.7: it skips every character outside the alphabet, stops at a
  padding sequence and raises \<^verbatim>\<open>binascii.Error\<close> when bits are left over.
\<close>

definition b64_alphabet :: string where
  "b64_alphabet = ''ABCDEFGHIJKLMNOPQRSTUVWXYZabcdefghijklmnopqrstuvwxyz0123456789+/''"

definition b64_chr :: "nat \<Rightarrow> char" where
  "b64_chr v = b64_alphabet ! v"

fun index_of :: "'a list \<Rightarrow> 'a \<Rightarrow> nat option" where
  "index_of [] x = None"
| "index_of (y # ys) x = (if x = y then Some 0 else map_option Suc (index_of ys x))"

definition b64_val :: "char \<Rightarrow> nat option" where
  "b64_val c = index_of b64_alphabet c"

fun b2a_groups :: "string \<Rightarrow> string" where
  "b2a_groups [] = []"
| "b2a_groups [a] =
     [b64_chr (of_char a div 4), b64_chr ((of_char a mod 4) * 16), PAD_CHR, PAD_CHR]"
| "b2a_groups [a, b] =
     [b64_chr (of_char a div 4),
      b64_chr ((of_char a mod 4) * 16 + of_char b div 16),
      b64_chr ((of_char b mod 16) * 4), PAD_CHR]"
| "b2a_groups (a # b # c # rest) =
     [b64_chr (of_char a div 4),
      b64_chr ((of_char a mod 4) * 16 + of_char b div 16),
      b64_chr ((of_char b mod 16) * 4 + of_char c div 64),
      b64_chr (of_char c mod 64)] @ b2a_groups rest"

definition b2a_base64 :: "string \<Rightarrow> string" where
  "b2a_base64 chunk = b2a_groups chunk @ [LF]"

text \<open>\<^verbatim>\<open>for i in range(0, len(s), 57): pieces.append(b2a_base64(s[i : i + 57]))\<close>\<close>

function encodestring :: "string \<Rightarrow> string" where
  "encodestring s =
     (if s = [] then [] else b2a_base64 (take 57 s) @ encodestring (drop 57 s))"
  by pat_completeness auto
termination
  by (relation "measure length") auto

declare encodestring.simps [simp del]

text \<open>
  \<^verbatim>\<open>binascii_find_valid(ascii_data, ascii_len, 1)\<close> at a padding character: the next
  character after it that the decoding table accepts (the table accepts the alphabet
  and the padding character itself).
\<close>

fun find_valid :: "string \<Rightarrow> char option" where
  "find_valid [] = None"
| "find_valid (c # cs) =
     (if (of_char c :: nat) \<le> 127 \<and> (c = PAD_CHR \<or> b64_val c \<noteq> None) then Some c
      else find_valid cs)"

text \<open>
  The decoding loop, with the C variables \<^verbatim>\<open>quad_pos\<close>, \<^verbatim>\<open>leftchar\<close> and
  \<^verbatim>\<open>leftbits\<close>; the result is the final \<^verbatim>\<open>leftbits\<close> and the bytes written.
  \<^verbatim>\<open>(leftchar << 6) | this_ch\<close> is \<open>leftchar * 64 + v\<close> since \<open>v < 64\<close>.
\<close>

fun a2b_loop :: "string \<Rightarrow> nat \<Rightarrow> nat \<Rightarrow> nat \<Rightarrow> string \<Rightarrow> nat \<times> string" where
  "a2b_loop [] quad_pos leftchar leftbits out = (leftbits, out)"
| "a2b_loop (c # cs) quad_pos leftchar leftbits out =
     (if (of_char c :: nat) > 127 \<or> c = CR \<or> c = LF \<or> c = CHR '' '' then
        a2b_loop cs quad_pos leftchar leftbits out
      else if c = PAD_CHR then
        (if quad_pos < 2 \<or> (quad_pos = 2 \<and> find_valid cs \<noteq> Some PAD_CHR) then
           a2b_loop cs quad_pos leftchar leftbits out
         else (0, out))
      else
        (case b64_val c of
           None \<Rightarrow> a2b_loop cs quad_pos leftchar leftbits out
         | Some v \<Rightarrow>
             (let quad_pos' = (quad_pos + 1) mod 4;
                  leftchar' = leftchar * 64 + v;
                  leftbits' = leftbits + 6
              in if leftbits' \<ge> 8 then
                   a2b_loop cs quad_pos' (leftchar' mod 2 ^ (leftbits' - 8)) (leftbits' - 8)
                     (out @ [char_of (leftchar' div 2 ^ (leftbits' - 8) mod 256)])
                 else a2b_loop cs quad_pos' leftchar' leftbits' out)))"

declare a2b_loop.simps(2) [simp del]

definition a2b_base64 :: "string \<Rightarrow> error + string" where
  "a2b_base64 s =
     (case a2b_loop s 0 0 0 [] of
        (leftbits, out) \<Rightarrow> if leftbits \<noteq> 0 then Inl Base64Error else Inr out)"

section \<open>Crypticle: the authenticated-encryption envelope\<close>

text \<open>
  \<^verbatim>\<open>os.urandom\<close>, \<^verbatim>\<open>AES.new(key, AES.MODE_CBC, iv)\<close> and \<^verbatim>\<open>hmac.new(key, data,
  hashlib.sha256).digest()\<close> are not code of this module: the operating system's random
  source is the parameter \<open>urandom\<close>, the cipher the parameters \<open>aes_enc\<close> and
  \<open>aes_dec\<close> (key, IV, data; they raise on a key, an IV or a data length they do not
  accept), the MAC the parameter \<open>hmac_sha256\<close> (key, data).
\<close>

definition AES_BLOCK_SIZE :: nat where
  "AES_BLOCK_SIZE = 16"

definition SIG_SIZE :: nat where
  "SIG_SIZE = 32"

type_synonym cipher = "string \<Rightarrow> string \<Rightarrow> string \<Rightarrow> error + string"

type_synonym mac = "string \<Rightarrow> string \<Rightarrow> string"

text \<open>
  \<^verbatim>\<open>key = os.urandom(key_size // 8 + cls.SIG_SIZE)\<close>,
  \<^verbatim>\<open>return key.encode('base64').replace('\n', '')\<close>. \<^verbatim>\<open>os.urandom\<close> raises
  \<^verbatim>\<open>ValueError\<close> on a negative length.
\<close>

definition generate_key_string :: "(nat \<Rightarrow> string) \<Rightarrow> int \<Rightarrow> error + string" where
  "generate_key_string urandom key_size =
     (if key_size div 8 + int SIG_SIZE < 0 then Inl ValueError
      else Inr (filter (\<lambda>c. c \<noteq> LF)
                  (encodestring (urandom (nat (key_size div 8 + int SIG_SIZE))))))"

text \<open>
  \<^verbatim>\<open>key = key_string.decode('base64')\<close>,
  \<^verbatim>\<open>assert len(key) == key_size / 8 + cls.SIG_SIZE, 'invalid key'\<close>,
  \<^verbatim>\<open>return key[:-cls.SIG_SIZE], key[-cls.SIG_SIZE:]\<close>. In Python 2 \<^verbatim>\<open>/\<close> on
  integers is floor division. For a string \<open>s\<close> and \<open>k > 0\<close>, \<^verbatim>\<open>s[:-k]\<close> is
  \<open>take (length s - k) s\<close> and \<^verbatim>\<open>s[-k:]\<close> is \<open>drop (length s - k) s\<close>, also
  when \<open>s\<close> is shorter than \<open>k\<close>.
\<close>

definition extract_keys :: "string \<Rightarrow> int \<Rightarrow> error + (string \<times> string)" where
  "extract_keys key_string key_size =
     (case a2b_base64 key_string of
        Inl e \<Rightarrow> Inl e
      | Inr key \<Rightarrow>
          if int (length key) \<noteq> key_size div 8 + int SIG_SIZE then Inl AssertionError
          else Inr (take (length key - SIG_SIZE) key, drop (length key - SIG_SIZE) key))"

record crypticle =
  keys :: "string \<times> string"
  key_size :: int

definition Crypticle_init :: "string \<Rightarrow> int \<Rightarrow> error + crypticle" where
  "Crypticle_init key_string ksize =
     (case extract_keys key_string ksize of
        Inl e \<Rightarrow> Inl e
      | Inr ks \<Rightarrow> Inr \<lparr>keys = ks, key_size = ksize\<rparr>)"

text \<open>
  \<open>encrypt\<close>; \<open>iv_bytes\<close> is the value of \<^verbatim>\<open>os.urandom(self.AES_BLOCK_SIZE)\<close> in this
  call.
\<close>

definition encrypt :: "cipher \<Rightarrow> mac \<Rightarrow> crypticle \<Rightarrow> string \<Rightarrow> string \<Rightarrow> error + string" where
  "encrypt aes_enc hmac_sha256 self iv_bytes data =
     (case keys self of (aes_key, hmac_key) \<Rightarrow>
        (let pad = AES_BLOCK_SIZE - length data mod AES_BLOCK_SIZE;
             data1 = data @ replicate pad (char_of pad)
         in case aes_enc aes_key iv_bytes data1 of
              Inl e \<Rightarrow> Inl e
            | Inr ct \<Rightarrow>
                (let data2 = iv_bytes @ ct;
                     sig = hmac_sha256 hmac_key data2
                 in Inr (data2 @ sig))))"

text \<open>
  The comparison loop of \<open>decrypt\<close>:
  \<^verbatim>\<open>result = 0; for x, y in zip(mac_bytes, sig): result |= ord(x) ^ ord(y)\<close>.
\<close>

definition mac_compare :: "string \<Rightarrow> string \<Rightarrow> nat" where
  "mac_compare mac_bytes sig =
     fold (\<lambda>(zipped_x, zipped_y) result. result OR (of_char zipped_x XOR of_char zipped_y))
       (zip mac_bytes sig) 0"

text \<open>
  \<^verbatim>\<open>data[:-ord(data[-1])]\<close>: \<^verbatim>\<open>data[-1]\<close> raises \<^verbatim>\<open>IndexError\<close> on the empty
  string, and \<^verbatim>\<open>data[:-0]\<close> is \<^verbatim>\<open>data[:0]\<close>, the empty string.
\<close>

definition strip_padding :: "string \<Rightarrow> error + string" where
  "strip_padding data =
     (if data = [] then Inl IndexError
      else (let k = (of_char (last data) :: nat)
            in if k = 0 then Inr [] else Inr (take (length data - k) data)))"

definition decrypt :: "cipher \<Rightarrow> mac \<Rightarrow> crypticle \<Rightarrow> string \<Rightarrow> error + string" where
  "decrypt aes_dec hmac_sha256 self data =
     (case keys self of (aes_key, hmac_key) \<Rightarrow>
        (let sig = drop (length data - SIG_SIZE) data;
             data1 = take (length data - SIG_SIZE) data;
             mac_bytes = hmac_sha256 hmac_key data1
         in if length mac_bytes \<noteq> length sig then Inl AuthenticationError
            else if mac_compare mac_bytes sig \<noteq> 0 then Inl AuthenticationError
            else (let iv_bytes = take AES_BLOCK_SIZE data1;
                      data2 = drop AES_BLOCK_SIZE data1
                  in case aes_dec aes_key iv_bytes data2 of
                       Inl e \<Rightarrow> Inl e
                     | Inr data3 \<Rightarrow> strip_padding data3)))"

section \<open>The world outside the module\<close>

text \<open>
  The filesystem is a map from paths to file contents (only regular files are modelled,
  so \<^verbatim>\<open>os.path.exists\<close> and \<^verbatim>\<open>os.path.isfile\<close> are both membership in its
  domain; writes succeed; \<^verbatim>\<open>check_path_traversal\<close>, permissions and ownership are
  left out). \<open>entropy\<close> counts the random draws made so far: each call of
  \<^verbatim>\<open>RSA.gen_key\<close> and each OAEP encryption consumes one.
\<close>

record world =
  files :: "string \<rightharpoonup> string"
  entropy :: nat

text \<open>
  M2Crypto, \<^verbatim>\<open>hashlib\<close> and \<^verbatim>\<open>salt.utils.pem_finger\<close> are parameters: \<open>'k\<close> is the
  type of private key objects, \<open>'p\<close> of public key objects. An operation that can raise
  returns \<open>None\<close> where it raises. \<open>evp_verify\<close> is the integer that
  \<^verbatim>\<open>verify_final\<close> returns.
\<close>

record ('k, 'p) m2crypto =
  load_key :: "string \<Rightarrow> 'k option"
  load_pub_key :: "string \<Rightarrow> 'p option"
  gen_key :: "int \<Rightarrow> nat \<Rightarrow> 'k"
  save_key :: "'k \<Rightarrow> string"
  save_pub_key :: "'k \<Rightarrow> string"
  private_decrypt :: "'k \<Rightarrow> string \<Rightarrow> string option"
  private_encrypt :: "'k \<Rightarrow> string \<Rightarrow> string option"
  public_decrypt :: "'p \<Rightarrow> string \<Rightarrow> string option"
  public_encrypt :: "'p \<Rightarrow> string \<Rightarrow> nat \<Rightarrow> string option"
  evp_verify :: "'p \<Rightarrow> string \<Rightarrow> string \<Rightarrow> int"
  sha256_hexdigest :: "string \<Rightarrow> string"
  pem_finger :: "string \<Rightarrow> string"

text \<open>The configuration keys that the modelled functions read.\<close>

record opts =
  pki_dir :: string
  opt_id :: string
  keysize :: int
  open_mode :: bool
  rejected_retry :: bool
  verify_master_pubkey_sign :: bool
  always_verify_signature :: bool
  master_sign_pubkey :: bool
  master_use_pubkey_signature :: bool
  master_pubkey_signature :: string
  master_sign_key_name :: string
  syndic_master :: "string option"
  alert_master :: "string option"
  master_finger :: "string option"
  syndic_finger :: "string option"
  acceptance_wait_time :: int
  acceptance_wait_time_max :: int
  caller :: bool

text \<open>\<^verbatim>\<open>os.path.join(a, b)\<close> of \<^verbatim>\<open>posixpath\<close>.\<close>

definition path_join :: "string \<Rightarrow> string \<Rightarrow> string" where
  "path_join a b =
     (if take 1 b = ''/'' then b
      else if a = [] \<or> last a = CHR ''/'' then a @ b
      else a @ ''/'' @ b)"

text \<open>Python values that are not always strings, and their truth value.\<close>

datatype pyval = PNone | PBool bool | PInt int | PStr string

fun truthy :: "pyval \<Rightarrow> bool" where
  "truthy PNone = False"
| "truthy (PBool b) = b"
| "truthy (PInt i) = (i \<noteq> 0)"
| "truthy (PStr s) = (s \<noteq> [])"

section \<open>Key files\<close>

text \<open>
  \<open>gen_keys(keydir, keyname, keysize, user)\<close>: a fresh key is written to
  \<^verbatim>\<open><keydir>/<keyname>.pem\<close> and its public half to \<^verbatim>\<open><keydir>/<keyname>.pub\<close>;
  the path of the private key is returned.
\<close>

definition gen_keys ::
  "('k, 'p) m2crypto \<Rightarrow> string \<Rightarrow> string \<Rightarrow> int \<Rightarrow> world \<Rightarrow> string \<times> world" where
  "gen_keys lib keydir keyname ksize w =
     (let base = path_join keydir keyname;
          priv = base @ ''.pem'';
          pub = base @ ''.pub'';
          gen = gen_key lib ksize (entropy w)
      in (priv, w\<lparr>files := ((files w)(priv \<mapsto> save_key lib gen))(pub \<mapsto> save_pub_key lib gen),
                   entropy := Suc (entropy w)\<rparr>))"

text \<open>\<^verbatim>\<open>RSA.load_key(path)\<close>: raises when the file is missing or is not a private key.\<close>

definition RSA_load_key :: "('k, 'p) m2crypto \<Rightarrow> string \<Rightarrow> world \<Rightarrow> error + 'k" where
  "RSA_load_key lib path w =
     (case files w path of
        None \<Rightarrow> Inl IOError
      | Some pem \<Rightarrow> (case load_key lib pem of None \<Rightarrow> Inl RSAError | Some k \<Rightarrow> Inr k))"

definition RSA_load_pub_key :: "('k, 'p) m2crypto \<Rightarrow> string \<Rightarrow> world \<Rightarrow> error + 'p" where
  "RSA_load_pub_key lib path w =
     (case files w path of
        None \<Rightarrow> Inl IOError
      | Some pem \<Rightarrow> (case load_pub_key lib pem of None \<Rightarrow> Inl RSAError | Some k \<Rightarrow> Inr k))"

section \<open>MasterKeys\<close>

record 'k master_keys =
  mk_pub_path :: string
  mk_rsa_path :: string
  mk_key :: 'k
  mk_token :: string
  mk_pub_signature :: "string option"
  mk_sig_path :: "string option"
  mk_pub_sign_path :: "string option"
  mk_rsa_sign_path :: "string option"
  mk_sign_key :: "'k option"

text \<open>
  \<open>MasterKeys.__get_keys(self, name='master')\<close>. The key that is returned after
  generating is loaded from \<^verbatim>\<open>self.rsa_path\<close>, whatever \<open>name\<close> is.
\<close>

definition MasterKeys_get_keys ::
  "('k, 'p) m2crypto \<Rightarrow> opts \<Rightarrow> string \<Rightarrow> string \<Rightarrow> world \<Rightarrow> (error + 'k) \<times> world" where
  "MasterKeys_get_keys lib opts self_rsa_path name w =
     (let path = path_join (pki_dir opts) (name @ ''.pem'')
      in if path \<in> dom (files w) then (RSA_load_key lib path w, w)
         else (let w' = snd (gen_keys lib (pki_dir opts) name (keysize opts) w)
               in (RSA_load_key lib self_rsa_path w', w')))"

text \<open>
  \<open>MasterKeys.__init__\<close>; \<^verbatim>\<open>__gen_token\<close> is
  \<^verbatim>\<open>self.key.private_encrypt('salty bacon', 5)\<close>.
\<close>

definition MasterKeys_init ::
  "('k, 'p) m2crypto \<Rightarrow> opts \<Rightarrow> world \<Rightarrow> (error + 'k master_keys) \<times> world" where
  "MasterKeys_init lib opts w =
     (let pub_path = path_join (pki_dir opts) ''master.pub'';
          rsa_path = path_join (pki_dir opts) ''master.pem''
      in case MasterKeys_get_keys lib opts rsa_path ''master'' w of
           (Inl e, w1) \<Rightarrow> (Inl e, w1)
         | (Inr k, w1) \<Rightarrow>
             (case private_encrypt lib k ''salty bacon'' of
                None \<Rightarrow> (Inl RSAError, w1)
              | Some tok \<Rightarrow>
                  (let self = \<lparr>mk_pub_path = pub_path, mk_rsa_path = rsa_path, mk_key = k,
                              mk_token = tok, mk_pub_signature = None, mk_sig_path = None,
                              mk_pub_sign_path = None, mk_rsa_sign_path = None,
                              mk_sign_key = None\<rparr>
                   in if master_sign_pubkey opts then
                        (if master_use_pubkey_signature opts then
                           (let sig_path = path_join (pki_dir opts) (master_pubkey_signature opts)
                            in case files w1 sig_path of
                                 Some content \<Rightarrow>
                                   (Inr (self\<lparr>mk_sig_path := Some sig_path,
                                              mk_pub_signature := Some content\<rparr>), w1)
                               | None \<Rightarrow> (Inl (SystemExit 1), w1))
                         else
                           (let pub_sign_path =
                                  path_join (pki_dir opts) (master_sign_key_name opts @ ''.pub'');
                                rsa_sign_path =
                                  path_join (pki_dir opts) (master_sign_key_name opts @ ''.pem'')
                            in case MasterKeys_get_keys lib opts rsa_path
                                      (master_sign_key_name opts) w1 of
                                 (Inl e, w2) \<Rightarrow> (Inl e, w2)
                               | (Inr sk, w2) \<Rightarrow>
                                   (Inr (self\<lparr>mk_pub_sign_path := Some pub_sign_path,
                                              mk_rsa_sign_path := Some rsa_sign_path,
                                              mk_sign_key := Some sk\<rparr>), w2)))
                      else (Inr self, w1))))"

section \<open>Auth: the sign-in handshake of the minion\<close>

record auth =
  token :: string
  mpub :: string
  pub_path :: string
  rsa_path :: string

text \<open>
  \<open>Auth.__init__\<close>: the token is \<^verbatim>\<open>Crypticle.generate_key_string()\<close>, with the
  default key size 192, drawn once when the object is built.
\<close>

definition Auth_init :: "(nat \<Rightarrow> string) \<Rightarrow> opts \<Rightarrow> error + auth" where
  "Auth_init urandom opts =
     (case generate_key_string urandom 192 of
        Inl e \<Rightarrow> Inl e
      | Inr tok \<Rightarrow>
          Inr \<lparr>token = tok,
               mpub = (if syndic_master opts \<noteq> None then ''syndic_master.pub''
                       else if alert_master opts \<noteq> None then ''monitor_master.pub''
                       else ''minion_master.pub''),
               pub_path = path_join (pki_dir opts) ''minion.pub'',
               rsa_path = path_join (pki_dir opts) ''minion.pem''\<rparr>)"

definition get_keys ::
  "('k, 'p) m2crypto \<Rightarrow> opts \<Rightarrow> auth \<Rightarrow> world \<Rightarrow> (error + 'k) \<times> world" where
  "get_keys lib opts self w =
     (if rsa_path self \<in> dom (files w) then (RSA_load_key lib (rsa_path self) w, w)
      else (let w' = snd (gen_keys lib (pki_dir opts) ''minion'' (keysize opts) w)
            in (RSA_load_key lib (rsa_path self) w', w')))"

text \<open>The request that \<open>minion_sign_in_payload\<close> builds.\<close>

record sign_in_load =
  l_cmd :: string
  l_id :: string
  l_token :: "string option"
  l_pub :: string

record sign_in_payload =
  enc :: string
  load :: sign_in_load

text \<open>
  \<open>minion_sign_in_payload\<close>: the token of the object is encrypted to the pinned master
  key when that key loads (any failure inside the \<^verbatim>\<open>try\<close> leaves the token out);
  reading \<^verbatim>\<open>self.pub_path\<close> raises when the file is missing. The function reads
  \<^verbatim>\<open>self.token\<close> and does not assign it.
\<close>

definition minion_sign_in_payload ::
  "('k, 'p) m2crypto \<Rightarrow> opts \<Rightarrow> auth \<Rightarrow> world \<Rightarrow> (error + sign_in_payload) \<times> world" where
  "minion_sign_in_payload lib opts self w =
     (case (case RSA_load_pub_key lib (path_join (pki_dir opts) (mpub self)) w of
              Inl e \<Rightarrow> (None, w)
            | Inr pub \<Rightarrow>
                (public_encrypt lib pub (token self) (entropy w),
                 w\<lparr>entropy := Suc (entropy w)\<rparr>)) of
        (tok, w1) \<Rightarrow>
          (case files w1 (pub_path self) of
             None \<Rightarrow> (Inl IOError, w1)
           | Some p \<Rightarrow>
               (Inr \<lparr>enc = ''clear'',
                     load = \<lparr>l_cmd = ''_auth'', l_id = opt_id opts, l_token = tok, l_pub = p\<rparr>\<rparr>,
                w1)))"

text \<open>The reply of the master, a dictionary whose keys may be absent.\<close>

record reply_load =
  ret :: "pyval option"

record reply =
  p_load :: "reply_load option"
  p_aes :: "string option"
  p_sig :: "string option"
  p_token :: "string option"
  p_pub_key :: "string option"
  p_pub_sig :: "string option"
  p_publish_port :: "pyval option"

text \<open>\<^verbatim>\<open>'_|-' in key_str\<close> and \<^verbatim>\<open>key_str.split('_|-')\<close>.\<close>

definition SEP :: string where
  "SEP = ''_|-''"

fun contains_SEP :: "string \<Rightarrow> bool" where
  "contains_SEP [] = False"
| "contains_SEP (c # cs) = (take 3 (c # cs) = SEP \<or> contains_SEP cs)"

fun split_SEP :: "string \<Rightarrow> string \<Rightarrow> string list" where
  "split_SEP cur [] = [cur]"
| "split_SEP cur (c # cs) =
     (if take 3 (c # cs) = SEP then cur # split_SEP [] (drop 2 cs)
      else split_SEP (cur @ [c]) cs)"

text \<open>
  Lines 338 to 346 of \<open>decrypt_aes\<close>, after the signature check. The result is the
  pair, or the list that \<^verbatim>\<open>split\<close> returns, as a list of strings.
\<close>

definition decrypt_aes_result ::
  "('k, 'p) m2crypto \<Rightarrow> 'k \<Rightarrow> string \<Rightarrow> reply \<Rightarrow> bool \<Rightarrow> error + string list" where
  "decrypt_aes_result lib key key_str payload master_pub =
     (if contains_SEP key_str then Inr (split_SEP [] key_str)
      else (case p_token payload of
              Some tk \<Rightarrow>
                (case private_decrypt lib key tk of
                   None \<Rightarrow> Inl RSAError
                 | Some tok \<Rightarrow> Inr [key_str, tok])
            | None \<Rightarrow> if \<not> master_pub then Inr [key_str, ''''] else Inr ['''', '''']))"

text \<open>
  \<open>decrypt_aes(self, payload, master_pub=True)\<close>. A reply without \<^verbatim>\<open>sig\<close> takes the
  \<^verbatim>\<open>else: return '', ''\<close> of line 336.
\<close>

definition decrypt_aes ::
  "('k, 'p) m2crypto \<Rightarrow> opts \<Rightarrow> auth \<Rightarrow> reply \<Rightarrow> bool \<Rightarrow> world
     \<Rightarrow> (error + string list) \<times> world" where
  "decrypt_aes lib opts self payload master_pub w =
     (case get_keys lib opts self w of
        (Inl e, w1) \<Rightarrow> (Inl e, w1)
      | (Inr key, w1) \<Rightarrow>
          (case p_aes payload of
             None \<Rightarrow> (Inl KeyError, w1)
           | Some aes \<Rightarrow>
               (case private_decrypt lib key aes of
                  None \<Rightarrow> (Inl RSAError, w1)
                | Some key_str \<Rightarrow>
                    (case p_sig payload of
                       Some sg \<Rightarrow>
                         (let m_path = path_join (pki_dir opts) (mpub self)
                          in if m_path \<in> dom (files w1) then
                               (case RSA_load_pub_key lib m_path w1 of
                                  Inl e \<Rightarrow> (Inr ['''', ''''], w1)
                                | Inr mkey \<Rightarrow>
                                    (case public_decrypt lib mkey sg of
                                       None \<Rightarrow> (Inl RSAError, w1)
                                     | Some m_digest \<Rightarrow>
                                         if m_digest \<noteq> sha256_hexdigest lib key_str
                                         then (Inr ['''', ''''], w1)
                                         else (decrypt_aes_result lib key key_str payload
                                                 master_pub, w1)))
                             else (decrypt_aes_result lib key key_str payload master_pub, w1))
                     | None \<Rightarrow> (Inr ['''', ''''], w1)))))"

text \<open>
  \<open>verify_pubkey_sig\<close> with \<open>verify_signature\<close> inlined: the arguments are evaluated
  first (\<^verbatim>\<open>binascii.a2b_base64(sig)\<close> may raise), then the key file is loaded, then
  \<^verbatim>\<open>if res:\<close> tests the integer that \<^verbatim>\<open>verify_final\<close> returned.
\<close>

definition verify_pubkey_sig ::
  "('k, 'p) m2crypto \<Rightarrow> opts \<Rightarrow> string \<Rightarrow> string \<Rightarrow> world \<Rightarrow> error + bool" where
  "verify_pubkey_sig lib opts message sg w =
     (if master_sign_key_name opts \<noteq> [] then
        (let path = path_join (pki_dir opts) (master_sign_key_name opts @ ''.pub'')
         in case a2b_base64 sg of
              Inl e \<Rightarrow> Inl e
            | Inr raw \<Rightarrow>
                (case RSA_load_pub_key lib path w of
                   Inl e \<Rightarrow> Inl e
                 | Inr pubkey \<Rightarrow> Inr (evp_verify lib pubkey message raw \<noteq> 0)))
      else Inr False)"

text \<open>\<^verbatim>\<open>aes, token = ...\<close>: unpacking raises unless there are exactly two items.\<close>

definition unpack2 :: "string list \<Rightarrow> error + (string \<times> string)" where
  "unpack2 xs = (case xs of [a, b] \<Rightarrow> Inr (a, b) | _ \<Rightarrow> Inl ValueError)"

text \<open>
  The three lines that occur at 390-393, 462-465 and 469-471 of \<open>verify_master\<close>:
  write the received key to the pinned file, \<^verbatim>\<open>aes, token = self.decrypt_aes(payload,
  False)\<close>, \<^verbatim>\<open>return aes\<close>.
\<close>

definition persist_and_decrypt ::
  "('k, 'p) m2crypto \<Rightarrow> opts \<Rightarrow> auth \<Rightarrow> reply \<Rightarrow> string \<Rightarrow> world
     \<Rightarrow> (error + pyval) \<times> world" where
  "persist_and_decrypt lib opts self payload pub_key w =
     (let m_pub_fn = path_join (pki_dir opts) (mpub self);
          w1 = w\<lparr>files := (files w)(m_pub_fn \<mapsto> pub_key)\<rparr>
      in case decrypt_aes lib opts self payload False w1 of
           (Inl e, w2) \<Rightarrow> (Inl e, w2)
         | (Inr res, w2) \<Rightarrow>
             (case unpack2 res of
                Inl e \<Rightarrow> (Inl e, w2)
              | Inr (aes, tok) \<Rightarrow> (Inr (PStr aes), w2)))"

text \<open>
  Lines 418 to 452 of \<open>verify_master\<close>, reached when the received key equals the pinned
  one (or after the \<^verbatim>\<open>except KeyError\<close> handler). The last branch, no \<^verbatim>\<open>pub_sig\<close>
  and \<open>verify_master_pubkey_sign\<close> unset, has no \<^verbatim>\<open>return\<close>: the function ends and
  returns \<^verbatim>\<open>None\<close>.
\<close>

definition verify_master_same_key ::
  "('k, 'p) m2crypto \<Rightarrow> opts \<Rightarrow> auth \<Rightarrow> reply \<Rightarrow> world \<Rightarrow> (error + pyval) \<times> world" where
  "verify_master_same_key lib opts self payload w =
     (case p_pub_sig payload of
        Some pub_sig \<Rightarrow>
          if \<not> verify_master_pubkey_sign opts then (Inr (PStr ''''), w)
          else
            (case (if always_verify_signature opts then
                     (case p_pub_key payload of
                        None \<Rightarrow> Inl KeyError
                      | Some pub_key \<Rightarrow> verify_pubkey_sig lib opts pub_key pub_sig w)
                   else Inr True) of
               Inl e \<Rightarrow> (Inl e, w)
             | Inr logged \<Rightarrow>
                 (case decrypt_aes lib opts self payload True w of
                    (Inl e, w1) \<Rightarrow> (Inr (PStr ''''), w1)
                  | (Inr res, w1) \<Rightarrow>
                      (case unpack2 res of
                         Inl e \<Rightarrow> (Inr (PStr ''''), w1)
                       | Inr (aes, tok) \<Rightarrow>
                           if tok \<noteq> token self then (Inr (PStr ''''), w1)
                           else (Inr (PStr aes), w1))))
      | None \<Rightarrow>
          if verify_master_pubkey_sign opts then (Inr (PStr ''''), w)
          else (Inr PNone, w))"

text \<open>
  Lines 379 to 452: a pinned key file exists and \<open>open_mode\<close> is unset. The \<^verbatim>\<open>try\<close>
  of line 385 catches \<^verbatim>\<open>KeyError\<close> only (\<^verbatim>\<open>except KeyError, IndexError\<close> binds the
  exception to the name \<^verbatim>\<open>IndexError\<close>); its handler logs and control goes on at
  line 420.
\<close>

definition verify_master_pinned ::
  "('k, 'p) m2crypto \<Rightarrow> opts \<Rightarrow> auth \<Rightarrow> reply \<Rightarrow> string \<Rightarrow> world
     \<Rightarrow> (error + pyval) \<times> world" where
  "verify_master_pinned lib opts self payload local_master_pub w =
     (case p_pub_key payload of
        None \<Rightarrow> (Inl KeyError, w)
      | Some pub_key \<Rightarrow>
          if pub_key \<noteq> local_master_pub then
            (if verify_master_pubkey_sign opts then
               (case (case p_pub_sig payload of
                        None \<Rightarrow> (Inl KeyError, w)
                      | Some pub_sig \<Rightarrow>
                          (case verify_pubkey_sig lib opts pub_key pub_sig w of
                             Inl e \<Rightarrow> (Inl e, w)
                           | Inr ok \<Rightarrow>
                               if ok then persist_and_decrypt lib opts self payload pub_key w
                               else (Inr (PStr ''''), w))) of
                  (Inl e, w1) \<Rightarrow>
                    if e = KeyError then verify_master_same_key lib opts self payload w1
                    else (Inl e, w1)
                | (Inr v, w1) \<Rightarrow> (Inr v, w1))
             else if p_pub_sig payload \<noteq> None then (Inr (PStr ''''), w)
             else (Inr (PStr ''''), w))
          else verify_master_same_key lib opts self payload w)"

text \<open>
  Lines 454 to 471: no pinned key file, or \<open>open_mode\<close>. When the signature does not
  verify there is no \<^verbatim>\<open>return\<close> and the function returns \<^verbatim>\<open>None\<close>. In the last
  branch the file is opened for writing before \<^verbatim>\<open>payload['pub_key']\<close> is read.
\<close>

definition verify_master_unpinned ::
  "('k, 'p) m2crypto \<Rightarrow> opts \<Rightarrow> auth \<Rightarrow> reply \<Rightarrow> world \<Rightarrow> (error + pyval) \<times> world" where
  "verify_master_unpinned lib opts self payload w =
     (let m_pub_fn = path_join (pki_dir opts) (mpub self)
      in if verify_master_pubkey_sign opts then
           (case p_pub_key payload of
              None \<Rightarrow> (Inl KeyError, w)
            | Some pub_key \<Rightarrow>
                (case p_pub_sig payload of
                   None \<Rightarrow> (Inl KeyError, w)
                 | Some pub_sig \<Rightarrow>
                     (case verify_pubkey_sig lib opts pub_key pub_sig w of
                        Inl e \<Rightarrow> (Inl e, w)
                      | Inr ok \<Rightarrow>
                          if ok then persist_and_decrypt lib opts self payload pub_key w
                          else (Inr PNone, w))))
         else
           (case p_pub_key payload of
              None \<Rightarrow> (Inl KeyError, w\<lparr>files := (files w)(m_pub_fn \<mapsto> [])\<rparr>)
            | Some pub_key \<Rightarrow> persist_and_decrypt lib opts self payload pub_key w))"

text \<open>\<open>verify_master(self, payload)\<close>: the value returned is a string or \<^verbatim>\<open>None\<close>.\<close>

definition verify_master ::
  "('k, 'p) m2crypto \<Rightarrow> opts \<Rightarrow> auth \<Rightarrow> reply \<Rightarrow> world \<Rightarrow> (error + pyval) \<times> world" where
  "verify_master lib opts self payload w =
     (let m_pub_fn = path_join (pki_dir opts) (mpub self)
      in case files w m_pub_fn of
           Some local_master_pub \<Rightarrow>
             if \<not> open_mode opts
             then verify_master_pinned lib opts self payload local_master_pub w
             else verify_master_unpinned lib opts self payload w
         | None \<Rightarrow> verify_master_unpinned lib opts self payload w)"

text \<open>What \<open>sign_in\<close> returns: the string \<^verbatim>\<open>'retry'\<close> or \<^verbatim>\<open>'full'\<close>, or the
  dictionary \<^verbatim>\<open>{'aes': ..., 'publish_port': ...}\<close>.\<close>

datatype creds = CredsStr string | CredsDict pyval pyval

text \<open>\<^verbatim>\<open>salt.utils.pem_finger(path)\<close>: the empty string when the file is missing.\<close>

definition pem_finger_path :: "('k, 'p) m2crypto \<Rightarrow> string \<Rightarrow> world \<Rightarrow> string" where
  "pem_finger_path lib path w =
     (case files w path of None \<Rightarrow> [] | Some content \<Rightarrow> pem_finger lib content)"

text \<open>
  Lines 542 to 550 of \<open>sign_in\<close>: whether a configured fingerprint differs from the one
  of the pinned key file, in which case \<open>_finger_fail\<close> exits with status 42.
\<close>

definition finger_mismatch :: "('k, 'p) m2crypto \<Rightarrow> opts \<Rightarrow> string \<Rightarrow> world \<Rightarrow> bool" where
  "finger_mismatch lib opts m_pub_fn w =
     (if syndic_master opts \<noteq> None \<and> syndic_master opts \<noteq> Some [] then
        (case (case syndic_finger opts of
                 Some f \<Rightarrow> Some f
               | None \<Rightarrow> master_finger opts) of
           Some f \<Rightarrow> f \<noteq> [] \<and> pem_finger_path lib m_pub_fn w \<noteq> f
         | None \<Rightarrow> False)
      else
        (case master_finger opts of
           Some f \<Rightarrow> f \<noteq> [] \<and> pem_finger_path lib m_pub_fn w \<noteq> f
         | None \<Rightarrow> False))"

text \<open>
  \<open>sign_in(self, timeout=60, safe=True, tries=1)\<close>. The transport is the parameter
  \<open>send_auto\<close>: the reply to the request, or \<open>None\<close> for \<^verbatim>\<open>SaltReqTimeoutError\<close>.
\<close>

definition sign_in ::
  "('k, 'p) m2crypto \<Rightarrow> opts \<Rightarrow> auth \<Rightarrow> (sign_in_payload \<Rightarrow> reply option) \<Rightarrow> bool \<Rightarrow> world
     \<Rightarrow> (error + creds) \<times> world" where
  "sign_in lib opts self send_auto safe w =
     (let m_pub_fn = path_join (pki_dir opts) (mpub self)
      in case minion_sign_in_payload lib opts self w of
           (Inl e, w0) \<Rightarrow> (Inl e, w0)
         | (Inr request, w0) \<Rightarrow>
             (case send_auto request of
                None \<Rightarrow>
                  if safe then (Inr (CredsStr ''retry''), w0) else (Inl SaltClientError, w0)
              | Some payload \<Rightarrow>
                  (case (case p_load payload of None \<Rightarrow> None | Some ld \<Rightarrow> ret ld) of
                     Some r \<Rightarrow>
                       if \<not> truthy r then
                         (if rejected_retry opts then (Inr (CredsStr ''retry''), w0)
                          else (Inl (SystemExit 0), w0))
                       else if r = PStr ''full'' then (Inr (CredsStr ''full''), w0)
                       else (Inr (CredsStr ''retry''), w0)
                   | None \<Rightarrow>
                       (case verify_master lib opts self payload w0 of
                          (Inl e, w1) \<Rightarrow> (Inl e, w1)
                        | (Inr aes, w1) \<Rightarrow>
                            if \<not> truthy aes then (Inl (SystemExit 42), w1)
                            else if finger_mismatch lib opts m_pub_fn w1
                            then (Inl (SystemExit 42), w1)
                            else (case p_publish_port payload of
                                    None \<Rightarrow> (Inl KeyError, w1)
                                  | Some port \<Rightarrow> (Inr (CredsDict aes port), w1))))))"

section \<open>SAuth: the retry loop\<close>

text \<open>
  The \<^verbatim>\<open>while True\<close> loop of \<open>SAuth.__authenticate\<close>. It can run forever, so the model
  takes fuel: \<open>None\<close> means that the loop is still running when the fuel is used up.
  \<open>send_auto i\<close> is the transport at the \<open>i\<close>-th attempt; \<open>slept\<close> collects the
  arguments of \<^verbatim>\<open>time.sleep\<close> in order.
\<close>

fun authenticate_loop ::
  "('k, 'p) m2crypto \<Rightarrow> opts \<Rightarrow> auth \<Rightarrow> (nat \<Rightarrow> sign_in_payload \<Rightarrow> reply option) \<Rightarrow> bool
     \<Rightarrow> nat \<Rightarrow> nat \<Rightarrow> int \<Rightarrow> int \<Rightarrow> int list \<Rightarrow> world
     \<Rightarrow> (error + creds) option \<times> int list \<times> world" where
  "authenticate_loop lib opts self send_auto safe 0 i wait_time wait_time_max slept w =
     (None, slept, w)"
| "authenticate_loop lib opts self send_auto safe (Suc fuel) i wait_time wait_time_max slept w =
     (case sign_in lib opts self (send_auto i) safe w of
        (Inl e, w1) \<Rightarrow> (Some (Inl e), slept, w1)
      | (Inr c, w1) \<Rightarrow>
          if c = CredsStr ''retry'' then
            (if caller opts then (Some (Inl (SystemExit 2)), slept, w1)
             else authenticate_loop lib opts self send_auto safe fuel (Suc i)
                    (if wait_time < wait_time_max then wait_time + wait_time else wait_time)
                    wait_time_max
                    (if wait_time \<noteq> 0 then slept @ [wait_time] else slept)
                    w1)
          else (Some (Inr c), slept, w1))"

text \<open>
  \<open>SAuth.__authenticate\<close>: after the loop, \<^verbatim>\<open>Crypticle(self.opts, creds['aes'])\<close>.
  Indexing the string \<^verbatim>\<open>'full'\<close> with \<^verbatim>\<open>'aes'\<close> raises \<^verbatim>\<open>TypeError\<close>.
\<close>

definition authenticate ::
  "('k, 'p) m2crypto \<Rightarrow> opts \<Rightarrow> auth \<Rightarrow> (nat \<Rightarrow> sign_in_payload \<Rightarrow> reply option) \<Rightarrow> bool
     \<Rightarrow> nat \<Rightarrow> world \<Rightarrow> (error + crypticle) option \<times> int list \<times> world" where
  "authenticate lib opts self send_auto safe fuel w =
     (let wait_time = acceptance_wait_time opts;
          wait_time_max = (if acceptance_wait_time_max opts = 0 then wait_time
                           else acceptance_wait_time_max opts)
      in case authenticate_loop lib opts self send_auto safe fuel 0 wait_time wait_time_max [] w of
           (None, slept, w1) \<Rightarrow> (None, slept, w1)
         | (Some (Inl e), slept, w1) \<Rightarrow> (Some (Inl e), slept, w1)
         | (Some (Inr (CredsStr s)), slept, w1) \<Rightarrow> (Some (Inl TypeError), slept, w1)
         | (Some (Inr (CredsDict aes port)), slept, w1) \<Rightarrow>
             (case aes of
                PStr key_string \<Rightarrow> (Some (Crypticle_init key_string 192), slept, w1)
              | _ \<Rightarrow> (Some (Inl TypeError), slept, w1)))"

section \<open>A concrete world for the closed instances\<close>

text \<open>
  A small instance of the library parameters, used where a theorem is applied to a
  concrete input: keys are strings, a PEM file is the key behind a tag, the \<open>i\<close>-th
  generated key is \<open>i + 1\<close> letters long, the RSA operations are the identity.
\<close>

definition example_lib :: "(string, string) m2crypto" where
  "example_lib =
     \<lparr>load_key = (\<lambda>s. if take 5 s = ''PRIV:'' then Some (drop 5 s) else None),
      load_pub_key = (\<lambda>s. if take 4 s = ''PUB:'' then Some (drop 4 s) else None),
      gen_key = (\<lambda>size i. replicate (Suc i) (CHR ''k'')),
      save_key = (\<lambda>k. ''PRIV:'' @ k),
      save_pub_key = (\<lambda>k. ''PUB:'' @ k),
      private_decrypt = (\<lambda>k c. Some c),
      private_encrypt = (\<lambda>k m. Some m),
      public_decrypt = (\<lambda>p c. Some c),
      public_encrypt = (\<lambda>p m i. Some m),
      evp_verify = (\<lambda>p m s. 1),
      sha256_hexdigest = (\<lambda>s. s),
      pem_finger = (\<lambda>s. s)\<rparr>"

definition example_opts :: opts where
  "example_opts =
     \<lparr>pki_dir = ''/etc/salt/pki'', opt_id = ''minion1'', keysize = 2048,
      open_mode = False, rejected_retry = False, verify_master_pubkey_sign = False,
      always_verify_signature = False, master_sign_pubkey = False,
      master_use_pubkey_signature = False, master_pubkey_signature = ''master_pubkey_signature'',
      master_sign_key_name = ''master_sign'', syndic_master = None, alert_master = None,
      master_finger = None, syndic_finger = None, acceptance_wait_time = 10,
      acceptance_wait_time_max = 0, caller = False\<rparr>"

text \<open>
  A minion whose own key pair is on disk, without a pinned master key, and a random
  source that returns the letter \<open>r\<close> as often as asked.
\<close>

definition example_urandom :: "nat \<Rightarrow> string" where
  "example_urandom k = replicate k (CHR ''r'')"

definition example_auth :: auth where
  "example_auth =
     \<lparr>token = ''tok'', mpub = ''minion_master.pub'',
      pub_path = ''/etc/salt/pki/minion.pub'', rsa_path = ''/etc/salt/pki/minion.pem''\<rparr>"

definition example_world :: world where
  "example_world =
     \<lparr>files = [''/etc/salt/pki/minion.pem'' \<mapsto> ''PRIV:m'',
               ''/etc/salt/pki/minion.pub'' \<mapsto> ''PUB:m''],
      entropy = 0\<rparr>"

definition example_reply :: reply where
  "example_reply =
     \<lparr>p_load = None, p_aes = Some ''sessionkey'', p_sig = None, p_token = None,
      p_pub_key = Some ''PUB:master'', p_pub_sig = None, p_publish_port = Some (PInt 4505)\<rparr>"

section \<open>Facts about the base64 codec\<close>

lemma index_of_nth: "distinct xs \<Longrightarrow> i < length xs \<Longrightarrow> index_of xs (xs ! i) = Some i"
proof (induction xs arbitrary: i)
  case Nil then show ?case by simp
next
  case (Cons y ys)
  show ?case
  proof (cases i)
    case 0 then show ?thesis by simp
  next
    case (Suc j)
    with Cons.prems have "j < length ys" "distinct ys" "ys ! j \<noteq> y" by auto
    with Cons.IH[of j] Suc show ?thesis by simp
  qed
qed

lemma b64_alphabet_distinct: "distinct b64_alphabet"
  by (simp add: b64_alphabet_def)

lemma b64_alphabet_length: "length b64_alphabet = 64"
  by (simp add: b64_alphabet_def)

lemma b64_val_chr: "v < 64 \<Longrightarrow> b64_val (b64_chr v) = Some v"
  by (simp add: b64_val_def b64_chr_def index_of_nth b64_alphabet_distinct b64_alphabet_length)

lemma b64_alphabet_plain:
  "\<forall>c \<in> set b64_alphabet. (of_char c :: nat) \<le> 127 \<and> c \<noteq> CR \<and> c \<noteq> LF \<and> c \<noteq> CHR '' '' \<and> c \<noteq> PAD_CHR"
  by (simp add: b64_alphabet_def CR_def LF_def PAD_CHR_def)

lemma b64_chr_plain:
  assumes "v < 64"
  shows "(of_char (b64_chr v) :: nat) \<le> 127" "b64_chr v \<noteq> CR" "b64_chr v \<noteq> LF" 
        "b64_chr v \<noteq> CHR '' ''" "b64_chr v \<noteq> PAD_CHR"
proof -
  have "b64_chr v \<in> set b64_alphabet" using assms
    by (simp add: b64_chr_def b64_alphabet_length)
  with b64_alphabet_plain show "(of_char (b64_chr v) :: nat) \<le> 127" "b64_chr v \<noteq> CR" "b64_chr v \<noteq> LF" 
        "b64_chr v \<noteq> CHR '' ''" "b64_chr v \<noteq> PAD_CHR" by blast+
qed

lemma a2b_step:
  assumes "v < 64"
  shows "a2b_loop (b64_chr v # cs) q lc lb out =
     (if lb + 6 \<ge> 8 then
         a2b_loop cs ((q + 1) mod 4) ((lc * 64 + v) mod 2 ^ (lb + 6 - 8)) (lb + 6 - 8)
                     (out @ [char_of ((lc * 64 + v) div 2 ^ (lb + 6 - 8) mod 256)])
      else a2b_loop cs ((q + 1) mod 4) (lc * 64 + v) (lb + 6) out)"
  using b64_chr_plain[OF assms] b64_val_chr[OF assms]
  by (simp add: a2b_loop.simps(2) Let_def not_le)

lemma sextets_lt:
  fixes a b c :: nat
  assumes "a < 256" "b < 256" "c < 256"
  shows "a div 4 < 64" "(a mod 4) * 16 < 64" "(a mod 4) * 16 + b div 16 < 64"
        "(b mod 16) * 4 < 64" "(b mod 16) * 4 + c div 64 < 64" "c mod 64 < 64"
proof -
  have m4: "a mod 4 < 4" and m16: "b mod 16 < 16" by simp_all
  have d16: "b div 16 < 16" using assms(2) by (simp add: div_less_iff_less_mult)
  have d64: "c div 64 < 4" using assms(3) by (simp add: div_less_iff_less_mult)
  show "a div 4 < 64" using assms(1) by (simp add: div_less_iff_less_mult)
  show "(a mod 4) * 16 < 64" using m4 by linarith
  show "(a mod 4) * 16 + b div 16 < 64" using m4 d16 by linarith
  show "(b mod 16) * 4 < 64" using m16 by linarith
  show "(b mod 16) * 4 + c div 64 < 64" using m16 d64 by linarith
  show "c mod 64 < 64" by simp
qed

lemma regroup_gen:
  fixes x r :: nat
  assumes "r < k"
  shows "(x * k + r) div k = x" "(x * k + r) mod k = r"
  using assms by simp_all

lemma regroup1:
  fixes a b :: nat
  assumes "b < 256"
  shows "(a div 4 * 64 + ((a mod 4) * 16 + b div 16)) div 16 = a"
        "(a div 4 * 64 + ((a mod 4) * 16 + b div 16)) mod 16 = b div 16"
proof -
  have d16: "b div 16 < 16" using assms by (simp add: div_less_iff_less_mult)
  have e: "a div 4 * 64 + ((a mod 4) * 16 + b div 16) = a * 16 + b div 16"
    using div_mult_mod_eq[of a 4] by linarith
  show "(a div 4 * 64 + ((a mod 4) * 16 + b div 16)) div 16 = a"
    unfolding e using regroup_gen(1)[OF d16] by simp
  show "(a div 4 * 64 + ((a mod 4) * 16 + b div 16)) mod 16 = b div 16"
    unfolding e using regroup_gen(2)[OF d16] by simp
qed

lemma regroup2:
  fixes b c :: nat
  assumes "c < 256"
  shows "(b div 16 * 64 + ((b mod 16) * 4 + c div 64)) div 4 = b"
        "(b div 16 * 64 + ((b mod 16) * 4 + c div 64)) mod 4 = c div 64"
proof -
  have d: "c div 64 < 4" using assms by (simp add: div_less_iff_less_mult)
  have e: "b div 16 * 64 + ((b mod 16) * 4 + c div 64) = b * 4 + c div 64"
    using div_mult_mod_eq[of b 16] by linarith
  show "(b div 16 * 64 + ((b mod 16) * 4 + c div 64)) div 4 = b"
    unfolding e using regroup_gen(1)[OF d] by simp
  show "(b div 16 * 64 + ((b mod 16) * 4 + c div 64)) mod 4 = c div 64"
    unfolding e using regroup_gen(2)[OF d] by simp
qed

lemma regroup1':
  fixes a :: nat
  shows "(a div 4 * 64 + (a mod 4) * 16) div 16 = a"
        "(a div 4 * 64 + (a mod 4) * 16) mod 16 = 0"
  using regroup1[of 0 a] by simp_all

lemma regroup2':
  fixes b :: nat
  shows "(b div 16 * 64 + (b mod 16) * 4) div 4 = b"
        "(b div 16 * 64 + (b mod 16) * 4) mod 4 = 0"
  using regroup2[of 0 b] by simp_all

lemma regroup3:
  fixes c :: nat
  shows "c div 64 * 64 + c mod 64 = c"
  by simp


lemma find_valid_pad: "find_valid (PAD_CHR # cs) = Some PAD_CHR"
  by (simp add: PAD_CHR_def)

lemma pad_chr_plain:
  "\<not> (of_char PAD_CHR :: nat) > 127" "PAD_CHR \<noteq> CR" "PAD_CHR \<noteq> LF" "PAD_CHR \<noteq> CHR '' ''"
  by (simp_all add: PAD_CHR_def CR_def LF_def)

lemma a2b_pad_stop:
  assumes "2 \<le> q" "q = 2 \<longrightarrow> find_valid cs = Some PAD_CHR"
  shows "a2b_loop (PAD_CHR # cs) q lc lb out = (0, out)"
proof -
  have "\<not> (q < 2 \<or> (q = 2 \<and> find_valid cs \<noteq> Some PAD_CHR))"
    using assms by auto
  then show ?thesis
    by (simp only: a2b_loop.simps(2) pad_chr_plain if_False if_True simp_thms)
qed

lemma a2b_quad:
  fixes a b c :: char
  shows "a2b_loop (b64_chr (of_char a div 4) #
            b64_chr ((of_char a mod 4) * 16 + of_char b div 16) #
            b64_chr ((of_char b mod 16) * 4 + of_char c div 64) #
            b64_chr (of_char c mod 64) # cs) 0 0 0 out
         = a2b_loop cs 0 0 0 (out @ [a, b, c])"
proof -
  have lt: "(of_char a :: nat) < 256" "(of_char b :: nat) < 256" "(of_char c :: nat) < 256"
    by simp_all
  note sx = sextets_lt[OF lt]
  have s1: "a2b_loop (b64_chr (of_char a div 4) #
            b64_chr ((of_char a mod 4) * 16 + of_char b div 16) #
            b64_chr ((of_char b mod 16) * 4 + of_char c div 64) #
            b64_chr (of_char c mod 64) # cs) 0 0 0 out
        = a2b_loop (b64_chr ((of_char a mod 4) * 16 + of_char b div 16) #
            b64_chr ((of_char b mod 16) * 4 + of_char c div 64) #
            b64_chr (of_char c mod 64) # cs) 1 (of_char a div 4) 6 out"
    by (simp add: a2b_step[OF sx(1)])
  have s2: "a2b_loop (b64_chr ((of_char a mod 4) * 16 + of_char b div 16) #
            b64_chr ((of_char b mod 16) * 4 + of_char c div 64) #
            b64_chr (of_char c mod 64) # cs) 1 (of_char a div 4) 6 out
        = a2b_loop (b64_chr ((of_char b mod 16) * 4 + of_char c div 64) #
            b64_chr (of_char c mod 64) # cs) (Suc (Suc 0)) (of_char b div 16) 4 (out @ [a])"
    by (simp add: a2b_step[OF sx(3)] regroup1[OF lt(2)])
  have s3: "a2b_loop (b64_chr ((of_char b mod 16) * 4 + of_char c div 64) #
            b64_chr (of_char c mod 64) # cs) (Suc (Suc 0)) (of_char b div 16) 4 (out @ [a])
        = a2b_loop (b64_chr (of_char c mod 64) # cs) 3 (of_char c div 64) 2 (out @ [a, b])"
    by (simp add: a2b_step[OF sx(5)] regroup2[OF lt(3)])
  have s4: "a2b_loop (b64_chr (of_char c mod 64) # cs) 3 (of_char c div 64) 2 (out @ [a, b])
        = a2b_loop cs 0 0 0 (out @ [a, b, c])"
    by (simp add: a2b_step[OF sx(6)])
  show ?thesis by (simp only: s1 s2 s3 s4)
qed

lemma a2b_tail1:
  fixes a :: char
  shows "a2b_loop [b64_chr (of_char a div 4), b64_chr ((of_char a mod 4) * 16), PAD_CHR, PAD_CHR] 0 0 0 out
         = (0, out @ [a])"
proof -
  have lt: "(of_char a :: nat) < 256" by simp
  note sx = sextets_lt[OF lt lt lt]
  have s1: "a2b_loop [b64_chr (of_char a div 4), b64_chr ((of_char a mod 4) * 16), PAD_CHR, PAD_CHR] 0 0 0 out
     = a2b_loop [b64_chr ((of_char a mod 4) * 16), PAD_CHR, PAD_CHR] 1 (of_char a div 4) 6 out"
    by (simp add: a2b_step[OF sx(1)])
  have s2: "a2b_loop [b64_chr ((of_char a mod 4) * 16), PAD_CHR, PAD_CHR] 1 (of_char a div 4) 6 out
     = a2b_loop [PAD_CHR, PAD_CHR] (Suc (Suc 0)) 0 4 (out @ [a])"
    by (simp add: a2b_step[OF sx(2)] regroup1')
  have s3: "a2b_loop [PAD_CHR, PAD_CHR] (Suc (Suc 0)) 0 4 (out @ [a]) = (0, out @ [a])"
  proof (rule a2b_pad_stop)
    show "2 \<le> Suc (Suc 0)" by simp
    show "Suc (Suc 0) = 2 \<longrightarrow> find_valid [PAD_CHR] = Some PAD_CHR"
      by (simp only: find_valid_pad simp_thms)
  qed
  show ?thesis by (simp only: s1 s2 s3)
qed

lemma a2b_tail2:
  fixes a b :: char
  shows "a2b_loop [b64_chr (of_char a div 4),
                   b64_chr ((of_char a mod 4) * 16 + of_char b div 16),
                   b64_chr ((of_char b mod 16) * 4), PAD_CHR] 0 0 0 out
         = (0, out @ [a, b])"
proof -
  have lt: "(of_char a :: nat) < 256" "(of_char b :: nat) < 256" by simp_all
  note sx = sextets_lt[OF lt(1) lt(2) lt(2)]
  have s1: "a2b_loop [b64_chr (of_char a div 4),
                   b64_chr ((of_char a mod 4) * 16 + of_char b div 16),
                   b64_chr ((of_char b mod 16) * 4), PAD_CHR] 0 0 0 out
     = a2b_loop [b64_chr ((of_char a mod 4) * 16 + of_char b div 16),
                   b64_chr ((of_char b mod 16) * 4), PAD_CHR] 1 (of_char a div 4) 6 out"
    by (simp add: a2b_step[OF sx(1)])
  have s2: "a2b_loop [b64_chr ((of_char a mod 4) * 16 + of_char b div 16),
                   b64_chr ((of_char b mod 16) * 4), PAD_CHR] 1 (of_char a div 4) 6 out
     = a2b_loop [b64_chr ((of_char b mod 16) * 4), PAD_CHR] (Suc (Suc 0)) (of_char b div 16) 4 (out @ [a])"
    by (simp add: a2b_step[OF sx(3)] regroup1[OF lt(2)])
  have s3: "a2b_loop [b64_chr ((of_char b mod 16) * 4), PAD_CHR] (Suc (Suc 0)) (of_char b div 16) 4 (out @ [a])
     = a2b_loop [PAD_CHR] 3 0 2 (out @ [a, b])"
    by (simp add: a2b_step[OF sx(4)] regroup2')
  have s4: "a2b_loop [PAD_CHR] 3 0 2 (out @ [a, b]) = (0, out @ [a, b])"
    by (rule a2b_pad_stop) simp_all
  show ?thesis by (simp only: s1 s2 s3 s4)
qed

lemma a2b_groups: "a2b_loop (b2a_groups s) 0 0 0 out = (0, out @ s)"
proof (induction s arbitrary: out rule: b2a_groups.induct)
  case 1
  show ?case by simp
next
  case (2 a)
  show ?case by (simp only: b2a_groups.simps a2b_tail1)
next
  case (3 a b)
  show ?case by (simp only: b2a_groups.simps a2b_tail2)
next
  case (4 a b c rest)
  show ?case by (simp only: b2a_groups.simps append.simps a2b_quad "4.IH" append_assoc)
qed

lemma a2b_base64_groups: "a2b_base64 (b2a_groups s) = Inr s"
  by (simp add: a2b_base64_def a2b_groups)

lemma b64_chr_in_alphabet: "v < 64 \<Longrightarrow> b64_chr v \<in> set b64_alphabet"
  by (simp add: b64_chr_def b64_alphabet_length)

lemma b2a_groups_chars: "set (b2a_groups s) \<subseteq> set b64_alphabet \<union> {PAD_CHR}"
proof (induction s rule: b2a_groups.induct)
  case 1
  show ?case by simp
next
  case (2 a)
  have lt: "(of_char a :: nat) < 256" by simp
  show ?case using sextets_lt[OF lt lt lt] by (simp add: b64_chr_in_alphabet)
next
  case (3 a b)
  have lt: "(of_char a :: nat) < 256" "(of_char b :: nat) < 256" by simp_all
  show ?case using sextets_lt[OF lt(1) lt(2) lt(2)] by (simp add: b64_chr_in_alphabet)
next
  case (4 a b c rest)
  have lt: "(of_char a :: nat) < 256" "(of_char b :: nat) < 256" "(of_char c :: nat) < 256"
    by simp_all
  show ?case using sextets_lt[OF lt] "4.IH" by (simp add: b64_chr_in_alphabet)
qed

lemma b2a_groups_no_LF: "LF \<notin> set (b2a_groups s)"
proof
  assume "LF \<in> set (b2a_groups s)"
  with b2a_groups_chars have "LF \<in> set b64_alphabet \<or> LF = PAD_CHR" by auto
  with b64_alphabet_plain pad_chr_plain(3) show False by auto
qed

lemma b2a_groups_length: "length (b2a_groups s) = 4 * ((length s + 2) div 3)"
proof (induction s rule: b2a_groups.induct)
  case (4 a b c rest)
  have "(length (a # b # c # rest) + 2) div 3 = Suc ((length rest + 2) div 3)" by simp
  with "4.IH" show ?case by (simp only: b2a_groups.simps length_append list.size) simp
qed simp_all

lemma b2a_groups_append:
  "3 dvd length xs \<Longrightarrow> b2a_groups (xs @ ys) = b2a_groups xs @ b2a_groups ys"
proof (induction xs rule: b2a_groups.induct)
  case 1
  show ?case by simp
next
  case (2 a)
  from "2.prems" have "(3::nat) dvd 1" by simp
  then show ?case by simp
next
  case (3 a b)
  from "3.prems" have "(3::nat) dvd 2" by (simp add: numeral_2_eq_2)
  then show ?case by simp
next
  case (4 a b c rest)
  have "length (a # b # c # rest) = length rest + 3" by simp
  with "4.prems" have "3 dvd length rest + 3" by (simp only:)
  then have "3 dvd length rest" by (simp only: dvd_add_triv_right_iff)
  with "4.IH" show ?case by simp
qed

lemma filter_LF_b2a_base64: "filter (\<lambda>c. c \<noteq> LF) (b2a_base64 chunk) = b2a_groups chunk"
proof -
  have "\<forall>c \<in> set (b2a_groups chunk). c \<noteq> LF" using b2a_groups_no_LF by auto
  then have "filter (\<lambda>c. c \<noteq> LF) (b2a_groups chunk) = b2a_groups chunk"
    by (simp add: filter_id_conv)
  then show ?thesis by (simp add: b2a_base64_def)
qed

lemma encodestring_groups: "filter (\<lambda>c. c \<noteq> LF) (encodestring s) = b2a_groups s"
proof (induction s rule: encodestring.induct)
  case (1 s)
  show ?case
  proof (cases "s = []")
    case True
    then show ?thesis by (simp add: encodestring.simps)
  next
    case False
    have split: "b2a_groups (take 57 s) @ b2a_groups (drop 57 s) = b2a_groups s"
    proof (cases "57 \<le> length s")
      case True
      then have "length (take 57 s) = 57" by simp
      then have "3 dvd length (take 57 s)" by simp
      from b2a_groups_append[OF this, of "drop 57 s"] show ?thesis by simp
    next
      case False
      then show ?thesis by simp
    qed
    have "filter (\<lambda>c. c \<noteq> LF) (encodestring s) =
          filter (\<lambda>c. c \<noteq> LF) (b2a_base64 (take 57 s)) @
          filter (\<lambda>c. c \<noteq> LF) (encodestring (drop 57 s))"
      using False by (subst encodestring.simps) simp
    also have "\<dots> = b2a_groups (take 57 s) @ b2a_groups (drop 57 s)"
      using "1.IH"[OF False] by (simp only: filter_LF_b2a_base64)
    finally show ?thesis using split by simp
  qed
qed


section \<open>Facts about the envelope\<close>

lemma xor_nat_eq_0: "(a::nat) XOR b = 0 \<longleftrightarrow> a = b"
  by (metis xor_self_eq xor.left_neutral xor.assoc xor.commute)

lemma mac_fold_zero:
  "length a = length b \<Longrightarrow>
   fold (\<lambda>(x, y) r. r OR (of_char x XOR of_char y)) (zip a b) (r0::nat) = 0
     \<longleftrightarrow> r0 = 0 \<and> a = b"
proof (induction a arbitrary: b r0)
  case Nil then show ?case by simp
next
  case (Cons x xs)
  then obtain y ys where b: "b = y # ys" by (cases b) auto
  with Cons.prems have len: "length xs = length ys" by simp
  show ?case using Cons.IH[OF len] 
    by (auto simp: b or_eq_0_iff xor_nat_eq_0)
qed

lemma mac_compare_zero: "length a = length b \<Longrightarrow> mac_compare a b = 0 \<longleftrightarrow> a = b"
  unfolding mac_compare_def by (simp add: mac_fold_zero)

lemma strip_padding_pad:
  assumes "0 < p" "p < 256"
  shows "strip_padding (m @ replicate p (char_of p)) = Inr m"
  using assms by (simp add: strip_padding_def Let_def)


text \<open>
  C1. For every byte string \<open>m\<close> and every valid session key string \<open>k\<close> (one
  from which \<open>Crypticle_init\<close> builds an envelope), encrypting \<open>m\<close> under any
  16-byte IV and decrypting the result gives back \<open>m\<close> exactly: \<open>encrypt\<close> adds
  between 1 and 16 bytes of PKCS#7 padding and \<open>decrypt\<close> strips them. The cipher is
  assumed to invert itself on block-aligned data under the envelope's AES key, and the
  MAC to produce 32 bytes, as AES-CBC and HMAC-SHA256 do.
\<close>

theorem encrypt_decrypt_roundtrip:
  assumes init: "Crypticle_init k ksize = Inr self"
    and cbc: "\<forall>iv d. length iv = 16 \<and> 16 dvd length d \<longrightarrow>
                (\<exists>c. aes_enc (fst (keys self)) iv d = Inr c \<and> aes_dec (fst (keys self)) iv c = Inr d)"
    and mac: "\<forall>x. length (hmac_sha256 (snd (keys self)) x) = 32"
    and iv: "length iv_bytes = 16"
  shows "\<exists>c. encrypt aes_enc hmac_sha256 self iv_bytes m = Inr c \<and>
             decrypt aes_dec hmac_sha256 self c = Inr m"
proof -
  obtain ak hk where ks: "keys self = (ak, hk)" by (cases "keys self")
  define p where "p = 16 - length m mod 16"
  have p: "0 < p" "p < 256" "p \<le> 16" by (auto simp: p_def)
  define d1 where "d1 = m @ replicate p (char_of p)"
  have "16 dvd length d1" unfolding d1_def p_def
    by (simp add: mod_eq_0_iff_dvd[symmetric]) presburger
  with cbc iv ks obtain ct where ct: "aes_enc ak iv_bytes d1 = Inr ct" "aes_dec ak iv_bytes ct = Inr d1"
    by fastforce
  have enc: "encrypt aes_enc hmac_sha256 self iv_bytes m = Inr (iv_bytes @ ct @ hmac_sha256 hk (iv_bytes @ ct))"
    using ct by (simp add: encrypt_def ks Let_def AES_BLOCK_SIZE_def p_def d1_def)
  have l: "length (hmac_sha256 hk (iv_bytes @ ct)) = 32" using mac ks by simp
  have "decrypt aes_dec hmac_sha256 self (iv_bytes @ ct @ hmac_sha256 hk (iv_bytes @ ct)) = Inr m"
    using ct l iv p
    by (simp add: decrypt_def ks Let_def SIG_SIZE_def AES_BLOCK_SIZE_def mac_compare_zero d1_def strip_padding_pad)
  with enc show ?thesis by simp
qed

theorem encrypt_decrypt_roundtrip_witness:
  "Crypticle_init (replicate 75 (CHR ''A'') @ ''='') 192 =
     Inr \<lparr>keys = (replicate 24 (CHR 0x00), replicate 32 (CHR 0x00)), key_size = 192\<rparr> \<and>
   (\<exists>c. encrypt (\<lambda>k iv d. Inr (rev d)) (\<lambda>k d. replicate 32 (CHR ''m''))
          \<lparr>keys = (replicate 24 (CHR 0x00), replicate 32 (CHR 0x00)), key_size = 192\<rparr>
          (replicate 16 (CHR ''i'')) ''hello'' = Inr c \<and>
        decrypt (\<lambda>k iv d. Inr (rev d)) (\<lambda>k d. replicate 32 (CHR ''m''))
          \<lparr>keys = (replicate 24 (CHR 0x00), replicate 32 (CHR 0x00)), key_size = 192\<rparr> c
          = Inr ''hello'')"
proof -
  have init: "Crypticle_init (replicate 75 (CHR ''A'') @ ''='') 192 =
     Inr \<lparr>keys = (replicate 24 (CHR 0x00), replicate 32 (CHR 0x00)), key_size = 192\<rparr>"
    by code_simp
  show ?thesis
    using init encrypt_decrypt_roundtrip[OF init, of "\<lambda>k iv d. Inr (rev d)" "\<lambda>k iv d. Inr (rev d)"
       "\<lambda>k d. replicate 32 (CHR ''m'')" "replicate 16 (CHR ''i'')" "''hello''"]
    by simp
qed

text \<open>
  C4. When the trailing 32 bytes of the input (the whole input when it is shorter)
  differ from the HMAC of the remaining prefix under the envelope's HMAC key,
  \<open>decrypt\<close> raises \<^verbatim>\<open>AuthenticationError\<close>, whatever the cipher would do: the
  result does not depend on \<open>aes_dec\<close>, which is never consulted.
\<close>

theorem decrypt_rejects_bad_mac:
  assumes "drop (length data - SIG_SIZE) data \<noteq> hmac_sha256 (snd (keys self)) (take (length data - SIG_SIZE) data)"
  shows "decrypt aes_dec hmac_sha256 self data = Inl AuthenticationError"
  using assms
  by (auto simp: decrypt_def Let_def mac_compare_zero split: prod.splits)


theorem decrypt_rejects_bad_mac_witness:
  "decrypt (\<lambda>k iv d. Inl ValueError) (\<lambda>k d. replicate 32 (CHR ''m''))
     \<lparr>keys = (replicate 24 (CHR 0x00), replicate 32 (CHR 0x00)), key_size = 192\<rparr>
     (replicate 16 (CHR ''i'') @ replicate 16 (CHR ''c'') @ replicate 32 (CHR ''x''))
   = Inl AuthenticationError"
  using decrypt_rejects_bad_mac[of
     "replicate 16 (CHR ''i'') @ replicate 16 (CHR ''c'') @ replicate 32 (CHR ''x'')"
     "\<lambda>k d. replicate 32 (CHR ''m'')"
     "\<lparr>keys = (replicate 24 (CHR 0x00), replicate 32 (CHR 0x00)), key_size = 192\<rparr>"
     "\<lambda>k iv d. Inl ValueError"]
  by (simp add: SIG_SIZE_def)

text \<open>
  C9. For every key size \<open>n\<close> (a number of bits, so \<open>0 \<le> n\<close>) and every random
  source that returns as many bytes as it is asked for, \<open>generate_key_string\<close>
  returns a string without newlines, made of base64 characters only, that decodes to the
  \<open>n div 8 + 32\<close> random bytes, and \<open>extract_keys\<close> on that string with the same
  \<open>n\<close> returns two buffers of lengths \<open>n div 8\<close> and \<open>32\<close>.
\<close>

theorem generate_key_string_extract_keys:
  assumes rnd: "\<forall>k. length (urandom k) = k" and n: "0 \<le> n"
  shows "\<exists>ks. generate_key_string urandom n = Inr ks \<and>
              LF \<notin> set ks \<and> set ks \<subseteq> set b64_alphabet \<union> {PAD_CHR} \<and>
              a2b_base64 ks = Inr (urandom (nat (n div 8 + 32))) \<and>
              (\<exists>aes_key hmac_key. extract_keys ks n = Inr (aes_key, hmac_key) \<and>
                 int (length aes_key) = n div 8 \<and> length hmac_key = 32)"
proof -
  define raw where "raw = urandom (nat (n div 8 + 32))"
  have d: "0 \<le> n div 8" using n by simp
  have len: "int (length raw) = n div 8 + 32" using rnd d by (simp add: raw_def)
  have gen: "generate_key_string urandom n = Inr (b2a_groups raw)"
    using d by (simp add: generate_key_string_def SIG_SIZE_def encodestring_groups raw_def)
  have dec: "a2b_base64 (b2a_groups raw) = Inr raw" by (rule a2b_base64_groups)
  have ext: "extract_keys (b2a_groups raw) n =
               Inr (take (length raw - 32) raw, drop (length raw - 32) raw)"
    using len by (simp add: extract_keys_def dec SIG_SIZE_def)
  have l1: "int (length (take (length raw - 32) raw)) = n div 8" using len d by simp
  have l2: "length (drop (length raw - 32) raw) = 32" using len d by simp
  show ?thesis
  proof (intro exI conjI)
    show "generate_key_string urandom n = Inr (b2a_groups raw)" by (rule gen)
    show "LF \<notin> set (b2a_groups raw)" by (rule b2a_groups_no_LF)
    show "set (b2a_groups raw) \<subseteq> set b64_alphabet \<union> {PAD_CHR}"
      by (rule b2a_groups_chars)
    show "a2b_base64 (b2a_groups raw) = Inr (urandom (nat (n div 8 + 32)))"
      using dec by (simp only: raw_def)
    show "extract_keys (b2a_groups raw) n =
            Inr (take (length raw - 32) raw, drop (length raw - 32) raw)" by (rule ext)
    show "int (length (take (length raw - 32) raw)) = n div 8" by (rule l1)
    show "length (drop (length raw - 32) raw) = 32" by (rule l2)
  qed
qed

theorem generate_key_string_extract_keys_witness:
  "\<exists>ks. generate_key_string (\<lambda>k. replicate k (CHR ''s'')) 192 = Inr ks \<and>
              LF \<notin> set ks \<and> set ks \<subseteq> set b64_alphabet \<union> {PAD_CHR} \<and>
              a2b_base64 ks = Inr (replicate 56 (CHR ''s'')) \<and>
              (\<exists>aes_key hmac_key. extract_keys ks 192 = Inr (aes_key, hmac_key) \<and>
                 int (length aes_key) = 24 \<and> length hmac_key = 32)"
  using generate_key_string_extract_keys[of "\<lambda>k. replicate k (CHR ''s'')" 192] by simp

section \<open>Facts about MasterKeys\<close>

lemma path_join_pem: "path_join d (n @ ''.pem'') = path_join d n @ ''.pem''"
  by (cases n) (simp_all add: path_join_def)

lemma path_join_pub: "path_join d (n @ ''.pub'') = path_join d n @ ''.pub''"
  by (cases n) (simp_all add: path_join_def)

lemma pem_neq_pub: "a @ ''.pem'' \<noteq> b @ ''.pub''"
proof
  assume "a @ ''.pem'' = b @ ''.pub''"
  then have "last (a @ ''.pem'') = last (b @ ''.pub'')" by simp
  then show False by simp
qed

lemma gen_keys_files:
  "files (snd (gen_keys lib d n ks w)) =
     ((files w)(path_join d n @ ''.pem'' \<mapsto> save_key lib (gen_key lib ks (entropy w))))
       (path_join d n @ ''.pub'' \<mapsto> save_pub_key lib (gen_key lib ks (entropy w)))"
  by (simp add: gen_keys_def Let_def)

lemma RSA_load_key_cong:
  "files w1 p = files w2 p \<Longrightarrow> RSA_load_key lib p w1 = RSA_load_key lib p w2"
  by (simp add: RSA_load_key_def)

lemma get_keys_result:
  assumes "MasterKeys_get_keys lib opts rp name w = (Inr k, w1)"
  shows "(path_join (pki_dir opts) name @ ''.pem'' \<in> dom (files w) \<and> w1 = w \<and>
            RSA_load_key lib (path_join (pki_dir opts) name @ ''.pem'') w = Inr k)
         \<or> (path_join (pki_dir opts) name @ ''.pem'' \<notin> dom (files w) \<and>
            w1 = snd (gen_keys lib (pki_dir opts) name (keysize opts) w) \<and>
            RSA_load_key lib rp w1 = Inr k)"
  using assms
  by (auto simp: MasterKeys_get_keys_def Let_def path_join_pem split: if_splits)


text \<open>
  C10. When \<open>MasterKeys\<close> is initialised with \<open>master_sign_pubkey\<close> set and
  \<open>master_use_pubkey_signature\<close> unset, and no \<^verbatim>\<open><master_sign_key_name>.pem\<close> is on
  disk, then after a successful initialisation the files \<^verbatim>\<open><master_sign_key_name>.pem\<close>
  and \<^verbatim>\<open>.pub\<close> hold a generated key pair, while the key object stored as
  \<open>sign_key\<close> is the one loaded from \<^verbatim>\<open>master.pem\<close>: it is the identity key
  \<open>self.key\<close>, not the key that was written under the signing name.
\<close>

theorem sign_key_is_identity_key:
  assumes init: "MasterKeys_init lib opts w = (Inr mk, w')"
    and sign: "master_sign_pubkey opts"
    and nosig: "\<not> master_use_pubkey_signature opts"
    and absent: "path_join (pki_dir opts) (master_sign_key_name opts @ ''.pem'')
                   \<notin> dom (files w)"
  shows "(\<exists>i. files w' (path_join (pki_dir opts) (master_sign_key_name opts @ ''.pem''))
                = Some (save_key lib (gen_key lib (keysize opts) i)) \<and>
              files w' (path_join (pki_dir opts) (master_sign_key_name opts @ ''.pub''))
                = Some (save_pub_key lib (gen_key lib (keysize opts) i))) \<and>
         mk_sign_key mk = Some (mk_key mk) \<and>
         RSA_load_key lib (path_join (pki_dir opts) ''master.pem'') w' = Inr (mk_key mk)"
proof -
  define P where "P = pki_dir opts"
  define N where "N = master_sign_key_name opts"
  define rp where "rp = path_join P ''master.pem''"
  define sp where "sp = path_join P N @ ''.pem''"
  define spub where "spub = path_join P N @ ''.pub''"
  have rp_eq: "rp = path_join P ''master'' @ ''.pem''"
    using path_join_pem[of P "''master''"] by (simp add: rp_def)
  from init sign nosig obtain k tok sk w1 where
    first: "MasterKeys_get_keys lib opts rp ''master'' w = (Inr k, w1)" and
    second: "MasterKeys_get_keys lib opts rp N w1 = (Inr sk, w')" and
    mk: "mk_key mk = k" "mk_sign_key mk = Some sk"
    by (auto simp: MasterKeys_init_def Let_def P_def N_def rp_def
             split: prod.splits sum.splits option.splits)
  have absent': "sp \<notin> dom (files w)"
    using absent by (simp add: sp_def P_def N_def path_join_pem)
  from get_keys_result[OF first]
  have k1: "RSA_load_key lib rp w1 = Inr k"
    by (auto simp: rp_eq P_def)
  from get_keys_result[OF first]
  have w1_cases: "w1 = w \<or> (rp \<notin> dom (files w) \<and>
                   w1 = snd (gen_keys lib P ''master'' (keysize opts) w))"
    by (auto simp: rp_eq P_def)
  show ?thesis
  proof (cases "sp \<in> dom (files w1)")
    case True
    with absent' w1_cases have gen1: "w1 = snd (gen_keys lib P ''master'' (keysize opts) w)"
      by auto
    have f1: "files w1 = ((files w)(rp \<mapsto> save_key lib (gen_key lib (keysize opts) (entropy w))))
       (path_join P ''master'' @ ''.pub'' \<mapsto> save_pub_key lib (gen_key lib (keysize opts) (entropy w)))"
      unfolding gen1 gen_keys_files rp_eq ..
    from True absent' have sp_rp: "sp = rp"
      using pem_neq_pub[of "path_join P N" "path_join P ''master''"]
      by (auto simp: f1 sp_def split: if_splits)
    then have pj: "path_join P N = path_join P ''master''"
      by (simp add: sp_def rp_eq)
    from get_keys_result[OF second] True have w': "w' = w1" and sk: "RSA_load_key lib sp w1 = Inr sk"
      by (auto simp: sp_def P_def)
    from sk k1 sp_rp have "sk = k" by simp
    moreover have "files w' sp = Some (save_key lib (gen_key lib (keysize opts) (entropy w)))"
      using pem_neq_pub[of "path_join P ''master''" "path_join P ''master''"]
      by (simp add: w' f1 sp_rp rp_eq)
    moreover have "files w' spub = Some (save_pub_key lib (gen_key lib (keysize opts) (entropy w)))"
      by (simp add: w' f1 spub_def pj)
    ultimately show ?thesis
      using mk k1 w'
      by (auto simp: sp_def spub_def P_def N_def rp_def path_join_pem path_join_pub)
  next
    case False
    with get_keys_result[OF second]
    have w': "w' = snd (gen_keys lib P N (keysize opts) w1)"
      and sk: "RSA_load_key lib rp w' = Inr sk"
      by (auto simp: sp_def P_def)
    have f2: "files w' = ((files w1)(sp \<mapsto> save_key lib (gen_key lib (keysize opts) (entropy w1))))
       (spub \<mapsto> save_pub_key lib (gen_key lib (keysize opts) (entropy w1)))"
      unfolding w' gen_keys_files sp_def spub_def ..
    from k1 have "rp \<in> dom (files w1)"
      by (auto simp: RSA_load_key_def split: option.splits)
    with False have ne: "rp \<noteq> sp" by auto
    have ne2: "rp \<noteq> spub" unfolding rp_eq spub_def by (rule pem_neq_pub)
    have "files w' rp = files w1 rp" using ne ne2 by (simp add: f2)
    from RSA_load_key_cong[OF this, of lib] sk k1 have "sk = k" by simp
    moreover have "files w' sp = Some (save_key lib (gen_key lib (keysize opts) (entropy w1)))"
      using pem_neq_pub[of "path_join P N" "path_join P N"] by (simp add: f2 sp_def spub_def)
    moreover have "files w' spub = Some (save_pub_key lib (gen_key lib (keysize opts) (entropy w1)))"
      by (simp add: f2)
    ultimately show ?thesis
      using mk sk
      by (auto simp: sp_def spub_def P_def N_def rp_def path_join_pem path_join_pub)
  qed
qed

theorem sign_key_is_identity_key_witness:
  "\<exists>mk w'. MasterKeys_init example_lib (example_opts\<lparr>master_sign_pubkey := True\<rparr>)
               \<lparr>files = Map.empty, entropy = 0\<rparr> = (Inr mk, w') \<and>
           files w' ''/etc/salt/pki/master_sign.pem'' = Some ''PRIV:kk'' \<and>
           mk_sign_key mk = Some ''k'' \<and> mk_key mk = ''k'' \<and>
           RSA_load_key example_lib ''/etc/salt/pki/master.pem'' w' = Inr ''k''"
proof -
  define conf where "conf = example_opts\<lparr>master_sign_pubkey := True\<rparr>"
  define w0 where "w0 = \<lparr>files = Map.empty, entropy = 0\<rparr>"
  define r where "r = MasterKeys_init example_lib conf w0"
  have ok: "\<exists>mk. fst r = Inr mk \<and> mk_key mk = ''k''"
    unfolding r_def conf_def w0_def
    by (simp add: MasterKeys_init_def MasterKeys_get_keys_def gen_keys_def RSA_load_key_def
          example_lib_def example_opts_def path_join_def Let_def)
  have sp: "files (snd r) ''/etc/salt/pki/master_sign.pem'' = Some ''PRIV:kk''"
    unfolding r_def conf_def w0_def
    by (simp add: MasterKeys_init_def MasterKeys_get_keys_def gen_keys_def RSA_load_key_def
          example_lib_def example_opts_def path_join_def Let_def)
  from ok obtain mk where mk: "r = (Inr mk, snd r)" "mk_key mk = ''k''" by (cases r) auto
  have init: "MasterKeys_init example_lib conf w0 = (Inr mk, snd r)"
    using mk(1) by (simp only: r_def)
  have s1: "master_sign_pubkey conf" by (simp add: conf_def)
  have s2: "\<not> master_use_pubkey_signature conf" by (simp add: conf_def example_opts_def)
  have a: "path_join (pki_dir conf) (master_sign_key_name conf @ ''.pem'') \<notin> dom (files w0)"
    by (simp add: w0_def)
  have p: "path_join (pki_dir conf) ''master.pem'' = ''/etc/salt/pki/master.pem''"
    by (simp add: conf_def example_opts_def path_join_def)
  from sign_key_is_identity_key[OF init s1 s2 a]
  have t: "mk_sign_key mk = Some (mk_key mk)"
    "RSA_load_key example_lib (path_join (pki_dir conf) ''master.pem'') (snd r) = Inr (mk_key mk)"
    by blast+
  have "MasterKeys_init example_lib conf w0 = (Inr mk, snd r) \<and>
           files (snd r) ''/etc/salt/pki/master_sign.pem'' = Some ''PRIV:kk'' \<and>
           mk_sign_key mk = Some ''k'' \<and> mk_key mk = ''k'' \<and>
           RSA_load_key example_lib ''/etc/salt/pki/master.pem'' (snd r) = Inr ''k''"
    using init sp t mk(2) by (simp only: p simp_thms)
  then show ?thesis unfolding conf_def w0_def by blast
qed

section \<open>Facts about the handshake\<close>

text \<open>
  C5. If a pinned master key file exists, \<open>open_mode\<close> is unset, the \<^verbatim>\<open>pub_key\<close> of
  the reply differs from the pinned key, \<open>verify_master_pubkey_sign\<close> is unset and the
  reply carries no \<^verbatim>\<open>pub_sig\<close>, then \<open>verify_master\<close> returns the empty string and
  leaves the filesystem, the pinned key file included, as it was.
\<close>

theorem verify_master_rejects_changed_key:
  assumes "files w (path_join (pki_dir opts) (mpub self)) = Some pinned"
    and "\<not> open_mode opts"
    and "p_pub_key payload = Some pub_key"
    and "pub_key \<noteq> pinned"
    and "\<not> verify_master_pubkey_sign opts"
    and "p_pub_sig payload = None"
  shows "verify_master lib opts self payload w = (Inr (PStr ''''), w)"
  using assms by (simp add: verify_master_def verify_master_pinned_def)

theorem verify_master_rejects_changed_key_witness:
  "verify_master example_lib example_opts example_auth example_reply
     (example_world\<lparr>files := (files example_world)(''/etc/salt/pki/minion_master.pub'' \<mapsto> ''PUB:old'')\<rparr>)
   = (Inr (PStr ''''),
      example_world\<lparr>files := (files example_world)(''/etc/salt/pki/minion_master.pub'' \<mapsto> ''PUB:old'')\<rparr>)"
  using verify_master_rejects_changed_key[of
     "example_world\<lparr>files := (files example_world)(''/etc/salt/pki/minion_master.pub'' \<mapsto> ''PUB:old'')\<rparr>"
     example_opts example_auth "''PUB:old''" example_reply "''PUB:master''" example_lib]
  by (simp add: example_opts_def example_auth_def example_reply_def path_join_def)


lemma verify_master_same_key_None:
  assumes "files w (path_join (pki_dir opts) (mpub self)) = Some pinned"
    and "\<not> open_mode opts"
    and "p_pub_key payload = Some pinned"
    and "\<not> verify_master_pubkey_sign opts"
    and "p_pub_sig payload = None"
  shows "verify_master lib opts self payload w = (Inr PNone, w)"
  using assms
  by (simp add: verify_master_def verify_master_pinned_def verify_master_same_key_def)


text \<open>
  C3. \<open>verify_master\<close> is meant to return the session key string or the empty string.
  At a reply that carries the pinned key itself and no \<^verbatim>\<open>pub_sig\<close>, with
  \<open>verify_master_pubkey_sign\<close> unset, the code reaches the end of the function without a
  \<^verbatim>\<open>return\<close>: the value is \<^verbatim>\<open>None\<close>, neither of the two.
\<close>

theorem verify_master_returns_None:
  "verify_master example_lib example_opts example_auth example_reply
     (example_world\<lparr>files := (files example_world)(''/etc/salt/pki/minion_master.pub'' \<mapsto> ''PUB:master'')\<rparr>)
   = (Inr PNone,
      example_world\<lparr>files := (files example_world)(''/etc/salt/pki/minion_master.pub'' \<mapsto> ''PUB:master'')\<rparr>)"
  by (rule verify_master_same_key_None[where pinned = "''PUB:master''"])
     (simp_all add: example_opts_def example_auth_def example_reply_def path_join_def)

text \<open>
  C2, as stated, fails: a reply without \<^verbatim>\<open>sig\<close> is answered by the pair of empty
  strings (line 336), whatever \<open>master_pub\<close> is, although its \<^verbatim>\<open>aes\<close> field decrypts
  under the minion's private key.
\<close>

theorem decrypt_aes_without_sig_counterexample:
  "private_decrypt example_lib ''m'' ''sessionkey'' = Some ''sessionkey'' \<and>
   fst (get_keys example_lib example_opts example_auth example_world) = Inr ''m'' \<and>
   p_sig example_reply = None \<and> p_token example_reply = None \<and>
   fst (decrypt_aes example_lib example_opts example_auth example_reply False example_world)
     = Inr ['''', ''''] \<and>
   fst (decrypt_aes example_lib example_opts example_auth example_reply False example_world)
     \<noteq> Inr [''sessionkey'', '''']"
  by (simp add: decrypt_aes_def get_keys_def RSA_load_key_def example_lib_def
        example_opts_def example_auth_def example_reply_def example_world_def)


text \<open>
  C2, amended. Let the \<^verbatim>\<open>aes\<close> field of the reply decrypt to \<open>key_str\<close> under the
  minion's private key and let the reply carry no \<^verbatim>\<open>token\<close>. Without \<^verbatim>\<open>sig\<close>,
  \<open>decrypt_aes\<close> called with \<open>master_pub = False\<close> returns the pair of empty strings.
  With a \<^verbatim>\<open>sig\<close> that, when a pinned master key file exists, recovers under that key
  to the SHA-256 hex digest of \<open>key_str\<close>, and with \<open>key_str\<close> free of the separator
  \<^verbatim>\<open>_|-\<close>, it returns \<open>key_str\<close> paired with the empty token.
\<close>

theorem decrypt_aes_signed_first_contact:
  assumes "get_keys lib opts self w = (Inr key, w1)"
    and "p_aes payload = Some aes"
    and "private_decrypt lib key aes = Some key_str"
    and "p_token payload = None"
  shows "(p_sig payload = None \<longrightarrow>
            decrypt_aes lib opts self payload False w = (Inr ['''', ''''], w1)) \<and>
         (\<forall>sg. p_sig payload = Some sg \<and> \<not> contains_SEP key_str \<and>
               (path_join (pki_dir opts) (mpub self) \<notin> dom (files w1) \<or>
                (\<exists>mkey. RSA_load_pub_key lib (path_join (pki_dir opts) (mpub self)) w1 = Inr mkey \<and>
                        public_decrypt lib mkey sg = Some (sha256_hexdigest lib key_str)))
            \<longrightarrow> decrypt_aes lib opts self payload False w = (Inr [key_str, ''''], w1))"
  using assms
  by (auto simp: decrypt_aes_def decrypt_aes_result_def Let_def)


theorem decrypt_aes_signed_first_contact_witness:
  "decrypt_aes example_lib example_opts example_auth
     (example_reply\<lparr>p_sig := Some ''sessionkey''\<rparr>) False example_world
   = (Inr [''sessionkey'', ''''], example_world)"
proof -
  have k: "get_keys example_lib example_opts example_auth example_world = (Inr ''m'', example_world)"
    by (simp add: get_keys_def RSA_load_key_def example_lib_def example_auth_def example_world_def)
  have a: "p_aes (example_reply\<lparr>p_sig := Some ''sessionkey''\<rparr>) = Some ''sessionkey''"
    by (simp add: example_reply_def)
  have d: "private_decrypt example_lib ''m'' ''sessionkey'' = Some ''sessionkey''"
    by (simp add: example_lib_def)
  have t: "p_token (example_reply\<lparr>p_sig := Some ''sessionkey''\<rparr>) = None"
    by (simp add: example_reply_def)
  have n: "\<not> contains_SEP ''sessionkey''" by (simp add: SEP_def)
  have f: "path_join (pki_dir example_opts) (mpub example_auth) \<notin> dom (files example_world)"
    by (simp add: path_join_def example_opts_def example_auth_def example_world_def)
  from decrypt_aes_signed_first_contact[OF k a d t] n f show ?thesis by simp
qed


text \<open>
  C6. The wait is meant never to exceed \<open>acceptance_wait_time_max\<close>. The loop doubles
  the wait whenever it is below the maximum and does not clamp the result: starting at
  10 with a maximum of 60, four timed-out attempts sleep 10, 20, 40 and then 80 seconds.
\<close>

theorem backoff_exceeds_max:
  "fst (snd (authenticate example_lib
       (example_opts\<lparr>acceptance_wait_time := 10, acceptance_wait_time_max := 60\<rparr>)
       example_auth (\<lambda>i request. None) True 4 example_world)) = [10, 20, 40, 80]"
  by (simp add: authenticate_def sign_in_def minion_sign_in_payload_def RSA_load_pub_key_def
        path_join_def example_lib_def example_opts_def example_auth_def example_world_def
        eval_nat_numeral)


text \<open>
  C8. At a reply whose \<^verbatim>\<open>load.ret\<close> is \<^verbatim>\<open>'full'\<close>, \<open>sign_in\<close> returns
  \<^verbatim>\<open>'full'\<close>; the retry loop tests for \<^verbatim>\<open>'retry'\<close> only, leaves the loop without
  sleeping and fails with \<^verbatim>\<open>TypeError\<close> on \<^verbatim>\<open>creds['aes']\<close>: no envelope is
  built, and no second attempt is made.
\<close>

theorem full_reply_not_retried:
  "sign_in example_lib example_opts example_auth
     (\<lambda>request. Some (example_reply\<lparr>p_load := Some \<lparr>ret = Some (PStr ''full'')\<rparr>\<rparr>))
     True example_world = (Inr (CredsStr ''full''), example_world) \<and>
   authenticate example_lib example_opts example_auth
     (\<lambda>i request. Some (example_reply\<lparr>p_load := Some \<lparr>ret = Some (PStr ''full'')\<rparr>\<rparr>))
     True 3 example_world = (Some (Inl TypeError), [], example_world)"
  by (simp add: authenticate_def sign_in_def minion_sign_in_payload_def RSA_load_pub_key_def
        path_join_def example_lib_def example_opts_def example_auth_def example_world_def
        example_reply_def numeral_3_eq_3)

section \<open>Facts about the token\<close>

lemma generate_key_string_192:
  assumes "length (urandom 56) = 56"
  shows "generate_key_string urandom 192 = Inr (b2a_groups (urandom 56))"
    and "length (b2a_groups (urandom 56)) = 76"
  using assms
  by (simp_all add: generate_key_string_def SIG_SIZE_def encodestring_groups b2a_groups_length)


text \<open>
  C7, as stated, fails: the token is not a 32-byte string. With a random source that
  returns the letter \<open>r\<close>, \<open>Auth.__init__\<close> sets the token to the 76 characters
  that encode 56 bytes in base64.
\<close>

theorem token_is_not_32_bytes_counterexample:
  "Auth_init example_urandom example_opts =
     Inr \<lparr>token = concat (replicate 18 ''cnJy'') @ ''cnI='', mpub = ''minion_master.pub'',
          pub_path = ''/etc/salt/pki/minion.pub'', rsa_path = ''/etc/salt/pki/minion.pem''\<rparr> \<and>
   length (concat (replicate 18 ''cnJy'') @ ''cnI='') \<noteq> 32"
proof -
  have l: "length (example_urandom 56) = 56" by (simp add: example_urandom_def)
  have "b2a_groups (example_urandom 56) = concat (replicate 18 ''cnJy'') @ ''cnI=''"
    by code_simp
  with generate_key_string_192(1)[of example_urandom, OF l]
  have a: "Auth_init example_urandom example_opts =
     Inr \<lparr>token = concat (replicate 18 ''cnJy'') @ ''cnI='', mpub = ''minion_master.pub'',
          pub_path = ''/etc/salt/pki/minion.pub'', rsa_path = ''/etc/salt/pki/minion.pem''\<rparr>"
    by (simp add: Auth_init_def example_opts_def path_join_def)
  have "length (concat (replicate 18 ''cnJy'') @ ''cnI='') = 76" by code_simp
  then have b: "length (concat (replicate 18 ''cnJy'') @ ''cnI='') \<noteq> 32" by simp
  from a b show ?thesis by (rule conjI)
qed


text \<open>
  C7, amended. The token is drawn once, when the \<open>Auth\<close> object is built: it is the
  result of \<open>generate_key_string\<close>, 76 base64 characters encoding 56 random bytes.
  \<open>minion_sign_in_payload\<close> does not draw a new one: every request it builds carries
  that same token, encrypted to the pinned master key when that key loads, so two
  requests of one object differ in the token field only through the randomness of the
  encryption.
\<close>

theorem token_generated_at_init:
  assumes rnd: "\<forall>k. length (urandom k) = k"
  shows "\<exists>self. Auth_init urandom opts = Inr self \<and>
           length (token self) = 76 \<and> a2b_base64 (token self) = Inr (urandom 56) \<and>
           (\<forall>request w'. minion_sign_in_payload lib opts self w = (Inr request, w') \<longrightarrow>
              l_token (load request) =
                (case RSA_load_pub_key lib (path_join (pki_dir opts) (mpub self)) w of
                   Inl e \<Rightarrow> None
                 | Inr pub \<Rightarrow> public_encrypt lib pub (token self) (entropy w)))"
proof -
  from rnd have l: "length (urandom 56) = 56" by simp
  obtain self where init: "Auth_init urandom opts = Inr self"
    and tok: "token self = b2a_groups (urandom 56)"
    using generate_key_string_192(1)[of urandom, OF l] by (simp add: Auth_init_def)
  have "\<forall>request w'. minion_sign_in_payload lib opts self w = (Inr request, w') \<longrightarrow>
              l_token (load request) =
                (case RSA_load_pub_key lib (path_join (pki_dir opts) (mpub self)) w of
                   Inl e \<Rightarrow> None
                 | Inr pub \<Rightarrow> public_encrypt lib pub (token self) (entropy w))"
    by (auto simp: minion_sign_in_payload_def split: sum.splits option.splits)
  with init tok generate_key_string_192(2)[of urandom, OF l] a2b_base64_groups[of "urandom 56"]
  show ?thesis by auto
qed

theorem token_generated_at_init_witness:
  "\<exists>self. Auth_init example_urandom example_opts = Inr self \<and>
           length (token self) = 76 \<and> a2b_base64 (token self) = Inr (replicate 56 (CHR ''r'')) \<and>
           (\<forall>request w'. minion_sign_in_payload example_lib example_opts self
                  (example_world\<lparr>files := (files example_world)
                     (''/etc/salt/pki/minion_master.pub'' \<mapsto> ''PUB:master'')\<rparr>) = (Inr request, w') \<longrightarrow>
              l_token (load request) = Some (token self))"
proof -
  have rnd: "\<forall>k. length (example_urandom k) = k" by (simp add: example_urandom_def)
  from token_generated_at_init[OF rnd, of example_opts example_lib
      "example_world\<lparr>files := (files example_world)
                     (''/etc/salt/pki/minion_master.pub'' \<mapsto> ''PUB:master'')\<rparr>"]
  obtain self where s: "Auth_init example_urandom example_opts = Inr self"
     "length (token self) = 76" "a2b_base64 (token self) = Inr (example_urandom 56)"
     "\<forall>request w'. minion_sign_in_payload example_lib example_opts self
                  (example_world\<lparr>files := (files example_world)
                     (''/etc/salt/pki/minion_master.pub'' \<mapsto> ''PUB:master'')\<rparr>) = (Inr request, w') \<longrightarrow>
              l_token (load request) =
                (case RSA_load_pub_key example_lib (path_join (pki_dir example_opts) (mpub self))
                   (example_world\<lparr>files := (files example_world)
                     (''/etc/salt/pki/minion_master.pub'' \<mapsto> ''PUB:master'')\<rparr>) of
                   Inl e \<Rightarrow> None
                 | Inr pub \<Rightarrow> public_encrypt example_lib pub (token self)
                     (entropy (example_world\<lparr>files := (files example_world)
                     (''/etc/salt/pki/minion_master.pub'' \<mapsto> ''PUB:master'')\<rparr>)))"
    by blast
  from s(1) have mp: "mpub self = ''minion_master.pub''"
    by (auto simp: Auth_init_def example_opts_def split: sum.splits)
  have ld: "RSA_load_pub_key example_lib (path_join (pki_dir example_opts) (mpub self))
                   (example_world\<lparr>files := (files example_world)
                     (''/etc/salt/pki/minion_master.pub'' \<mapsto> ''PUB:master'')\<rparr>) = Inr ''master''"
    by (simp add: mp RSA_load_pub_key_def path_join_def example_opts_def example_lib_def)
  have pe: "\<And>i. public_encrypt example_lib ''master'' (token self) i = Some (token self)"
    by (simp add: example_lib_def)
  show ?thesis
    using s by (intro exI[of _ self]) (simp add: ld pe example_urandom_def)
qed

end
